theory Spec2Isabelle
  imports Main
begin

section \<open>Python values\<close>

text \<open>
  The assistant of \<^verbatim>\<open>src/main.py\<close> handles JSON data decoded by the Apify client:
  \<^verbatim>\<open>None\<close>, booleans, integers, floats, strings, lists and dicts. A dict is an
  association list read with \<open>map_of\<close>; it is empty exactly when the list is.

  A Python string is a sequence of Unicode characters; here it is the HOL string of
  its UTF-8 bytes, and \<open>utf8_chars\<close> below cuts it back into characters. A float is
  named by the text \<^verbatim>\<open>repr\<close> gives it, which determines it; the program only prints
  floats and tests them for zero.
\<close>

datatype json =
    JNull
  | JBool bool
  | JInt int
  | JFloat string
  | JStr string
  | JList "json list"
  | JDict "(string \<times> json) list"

text \<open>
  Exceptions are values. \<open>UpstreamError\<close> is whatever a collaborator (the text
  model or the Apify client) raises, with its message; the other three are raised
  by the Python runtime on data of the wrong shape.
\<close>

datatype error =
    UpstreamError string
  | AttributeError
  | TypeError
  | KeyError

subsection \<open>Characters\<close>

definition nl :: string where
  "nl = [CHR 0x0A]"

definition dq :: string where
  "dq = [CHR 0x22]"

definition sq :: string where
  "sq = [CHR 0x27]"

definition bullet :: string where
  \<comment> \<open>U+2022 in UTF-8\<close>
  "bullet = [CHR 0xE2, CHR 0x80, CHR 0xA2]"

definition is_ascii_char :: "char \<Rightarrow> bool" where
  "is_ascii_char c = ((of_char c :: nat) < 128)"

text \<open>In UTF-8 the bytes \<open>0x80\<close> to \<open>0xBF\<close> continue the character begun before them.\<close>

definition is_continuation :: "char \<Rightarrow> bool" where
  "is_continuation c = (128 \<le> (of_char c :: nat) \<and> (of_char c :: nat) < 192)"

text \<open>The characters of a text, each as its own bytes.\<close>

function utf8_chars :: "string \<Rightarrow> string list" where
  "utf8_chars [] = []"
| "utf8_chars (c # cs) =
     (c # takeWhile is_continuation cs) # utf8_chars (dropWhile is_continuation cs)"
  by pat_completeness auto
termination
  by (relation "measure length") (auto simp: length_dropWhile_le less_Suc_eq_le)

text \<open>
  What Python takes from the Unicode character database, which is no part of the
  program: the uppercase form of one character outside ASCII, the title-cased form of
  a text that has such a character, and the way \<^verbatim>\<open>repr\<close> writes one such character
  (itself when it is printable, an escape when it is not). All texts are UTF-8.
\<close>

record unicode =
  upper_of :: "string \<Rightarrow> string"
  title_of :: "string \<Rightarrow> string"
  repr_of :: "string \<Rightarrow> string"

text \<open>
  A method that works character by character: \<open>on_ascii\<close> on an ASCII character,
  \<open>on_other\<close> on the bytes of any other.
\<close>

definition each_char :: "(char \<Rightarrow> string) \<Rightarrow> (string \<Rightarrow> string) \<Rightarrow> string \<Rightarrow> string" where
  "each_char on_ascii on_other s =
     concat (map (\<lambda>ch. case ch of
                          [c] \<Rightarrow> if is_ascii_char c then on_ascii c else on_other ch
                        | _ \<Rightarrow> on_other ch)
                 (utf8_chars s))"

definition is_lower :: "char \<Rightarrow> bool" where
  "is_lower c = (97 \<le> (of_char c :: nat) \<and> (of_char c :: nat) \<le> 122)"

definition is_upper :: "char \<Rightarrow> bool" where
  "is_upper c = (65 \<le> (of_char c :: nat) \<and> (of_char c :: nat) \<le> 90)"

definition upper_char :: "char \<Rightarrow> char" where
  "upper_char c = (if is_lower c then char_of ((of_char c :: nat) - 32) else c)"

definition lower_char :: "char \<Rightarrow> char" where
  "lower_char c = (if is_upper c then char_of ((of_char c :: nat) + 32) else c)"

text \<open>
  \<^verbatim>\<open>s.upper()\<close>: every character is replaced by its uppercase form, whatever stands
  around it.
\<close>

definition py_upper :: "unicode \<Rightarrow> string \<Rightarrow> string" where
  "py_upper u s = each_char (\<lambda>c. [upper_char c]) (upper_of u) s"

text \<open>
  \<^verbatim>\<open>s.title()\<close> on ASCII text: a letter that follows a letter is lowered, any other
  letter is raised; the flag says whether the previous character was a letter.
\<close>

fun title_from :: "bool \<Rightarrow> string \<Rightarrow> string" where
  "title_from prev [] = []"
| "title_from prev (c # cs) =
     (if prev then lower_char c else upper_char c)
       # title_from (is_lower c \<or> is_upper c) cs"

definition py_title :: "unicode \<Rightarrow> string \<Rightarrow> string" where
  "py_title u s = (if list_all is_ascii_char s then title_from False s else title_of u s)"

text \<open>\<^verbatim>\<open>needle in haystack\<close> on strings: a contiguous occurrence.\<close>

fun starts_with :: "string \<Rightarrow> string \<Rightarrow> bool" where
  "starts_with [] s = True"
| "starts_with (a # as) [] = False"
| "starts_with (a # as) (c # cs) = (a = c \<and> starts_with as cs)"

fun py_in :: "string \<Rightarrow> string \<Rightarrow> bool" where
  "py_in needle [] = (needle = [])"
| "py_in needle (c # cs) = (starts_with needle (c # cs) \<or> py_in needle cs)"

subsection \<open>Rendering\<close>

definition digit_char :: "nat \<Rightarrow> char" where
  "digit_char d = char_of (48 + d)"

function dec_nat :: "nat \<Rightarrow> string" where
  "dec_nat n = (if n < 10 then [digit_char n] else dec_nat (n div 10) @ [digit_char (n mod 10)])"
  by pat_completeness auto
termination
  by (relation "measure id") auto

declare dec_nat.simps [simp del]

definition dec_int :: "int \<Rightarrow> string" where
  "dec_int i = (if i < 0 then CHR ''-'' # dec_nat (nat (- i)) else dec_nat (nat i))"

definition hex_char :: "nat \<Rightarrow> char" where
  "hex_char d = (if d < 10 then char_of (48 + d) else char_of (87 + d))"

text \<open>
  \<^verbatim>\<open>repr\<close> of a string: single quotes unless the text has a single quote and no
  double quote; backslash, the quote in use and the ASCII control characters are
  escaped, and a character outside ASCII is written as the character database says.
\<close>

definition escape_char :: "char \<Rightarrow> char \<Rightarrow> string" where
  "escape_char quote c =
     (if c = CHR 0x5C then [CHR 0x5C, CHR 0x5C]
      else if c = quote then [CHR 0x5C, quote]
      else if c = CHR 0x0A then [CHR 0x5C, CHR ''n'']
      else if c = CHR 0x0D then [CHR 0x5C, CHR ''r'']
      else if c = CHR 0x09 then [CHR 0x5C, CHR ''t'']
      else if (of_char c :: nat) < 32 \<or> (of_char c :: nat) = 127
        then [CHR 0x5C, CHR ''x'', hex_char ((of_char c :: nat) div 16),
              hex_char ((of_char c :: nat) mod 16)]
      else [c])"

definition repr_str :: "unicode \<Rightarrow> string \<Rightarrow> string" where
  "repr_str u s =
     (let quote = (if CHR 0x27 \<in> set s \<and> CHR 0x22 \<notin> set s then CHR 0x22 else CHR 0x27)
      in quote # each_char (escape_char quote) (repr_of u) s @ [quote])"

fun join_comma :: "string list \<Rightarrow> string" where
  "join_comma [] = []"
| "join_comma [x] = x"
| "join_comma (x # y # ys) = x @ '', '' @ join_comma (y # ys)"

fun py_repr :: "unicode \<Rightarrow> json \<Rightarrow> string"
  and repr_elems :: "unicode \<Rightarrow> json list \<Rightarrow> string list"
  and repr_items :: "unicode \<Rightarrow> (string \<times> json) list \<Rightarrow> string list" where
  "py_repr u JNull = ''None''"
| "py_repr u (JBool b) = (if b then ''True'' else ''False'')"
| "py_repr u (JInt i) = dec_int i"
| "py_repr u (JFloat r) = r"
| "py_repr u (JStr s) = repr_str u s"
| "py_repr u (JList xs) = ''['' @ join_comma (repr_elems u xs) @ '']''"
| "py_repr u (JDict kvs) = ''{'' @ join_comma (repr_items u kvs) @ ''}''"
| "repr_elems u [] = []"
| "repr_elems u (x # xs) = py_repr u x # repr_elems u xs"
| "repr_items u [] = []"
| "repr_items u ((k, v) # kvs) = (repr_str u k @ '': '' @ py_repr u v) # repr_items u kvs"

text \<open>What an f-string puts for \<^verbatim>\<open>{v}\<close>: \<^verbatim>\<open>str(v)\<close>.\<close>

definition py_str :: "unicode \<Rightarrow> json \<Rightarrow> string" where
  "py_str u v = (case v of JStr s \<Rightarrow> s | _ \<Rightarrow> py_repr u v)"

subsection \<open>Operations on values\<close>

text \<open>\<^verbatim>\<open>bool(v)\<close>; the two zero floats are written \<^verbatim>\<open>0.0\<close> and \<^verbatim>\<open>-0.0\<close>.\<close>

fun py_truthy :: "json \<Rightarrow> bool" where
  "py_truthy JNull = False"
| "py_truthy (JBool b) = b"
| "py_truthy (JInt i) = (i \<noteq> 0)"
| "py_truthy (JFloat r) = (r \<noteq> ''0.0'' \<and> r \<noteq> ''-0.0'')"
| "py_truthy (JStr s) = (s \<noteq> [])"
| "py_truthy (JList xs) = (xs \<noteq> [])"
| "py_truthy (JDict kvs) = (kvs \<noteq> [])"

definition dict_get :: "(string \<times> json) list \<Rightarrow> string \<Rightarrow> json \<Rightarrow> json" where
  "dict_get kvs k dflt = (case map_of kvs k of None \<Rightarrow> dflt | Some v \<Rightarrow> v)"

text \<open>\<^verbatim>\<open>v.get(k, dflt)\<close>: only a dict has the method.\<close>

fun py_get :: "json \<Rightarrow> string \<Rightarrow> json \<Rightarrow> error + json" where
  "py_get (JDict kvs) k dflt = Inr (dict_get kvs k dflt)"
| "py_get _ k dflt = Inl AttributeError"

text \<open>\<^verbatim>\<open>v[k]\<close> with a string key.\<close>

fun py_index :: "json \<Rightarrow> string \<Rightarrow> error + json" where
  "py_index (JDict kvs) k = (case map_of kvs k of None \<Rightarrow> Inl KeyError | Some v \<Rightarrow> Inr v)"
| "py_index _ k = Inl TypeError"

text \<open>\<^verbatim>\<open>len(v)\<close>; a string has as many elements as characters.\<close>

fun py_len :: "json \<Rightarrow> error + nat" where
  "py_len (JStr s) = Inr (length (utf8_chars s))"
| "py_len (JList xs) = Inr (length xs)"
| "py_len (JDict kvs) = Inr (length kvs)"
| "py_len _ = Inl TypeError"

text \<open>The elements a \<^verbatim>\<open>for\<close> loop over \<open>v\<close> visits.\<close>

fun py_iter :: "json \<Rightarrow> error + json list" where
  "py_iter (JList xs) = Inr xs"
| "py_iter (JStr s) = Inr (map JStr (utf8_chars s))"
| "py_iter (JDict kvs) = Inr (map (\<lambda>kv. JStr (fst kv)) kvs)"
| "py_iter _ = Inl TypeError"

text \<open>
  \<^verbatim>\<open>v[:n]\<close>. A dict cannot be sliced (TypeError before Python 3.12, KeyError
  from 3.12 on; the model takes the former).
\<close>

fun py_slice_to :: "nat \<Rightarrow> json \<Rightarrow> error + json" where
  "py_slice_to n (JList xs) = Inr (JList (take n xs))"
| "py_slice_to n (JStr s) = Inr (JStr (concat (take n (utf8_chars s))))"
| "py_slice_to n _ = Inl TypeError"

text \<open>\<^verbatim>\<open>v.title()\<close>: only a string has the method.\<close>

fun py_title_of :: "unicode \<Rightarrow> json \<Rightarrow> error + string" where
  "py_title_of u (JStr s) = Inr (py_title u s)"
| "py_title_of u _ = Inl AttributeError"

section \<open>The collaborators\<close>

text \<open>
  The assistant holds two clients. Each call to one of them is an event; what a
  client answers may depend on everything that was called before, so a client is a
  function of the events so far. A call either returns or raises.
\<close>

datatype event =
    LlmInvoke string
  | ActorCall string json
  | DatasetIterateItems json

record assistant =
  llm_invoke :: "event list \<Rightarrow> string \<Rightarrow> error + string"
  actor_call :: "event list \<Rightarrow> string \<Rightarrow> json \<Rightarrow> error + json"
  dataset_iterate_items :: "event list \<Rightarrow> json \<Rightarrow> error + json list"

section \<open>\<^verbatim>\<open>should_search_images\<close>\<close>

definition classify_prompt :: "string \<Rightarrow> string" where
  "classify_prompt q =
     nl @ ''Does this query need visual images to answer properly?'' @ nl
     @ ''Query: '' @ dq @ q @ dq @ nl
     @ nl
     @ ''Answer only '' @ dq @ ''YES'' @ dq @ '' or '' @ dq @ ''NO'' @ dq @ nl"

definition should_search_images ::
  "unicode \<Rightarrow> assistant \<Rightarrow> string \<Rightarrow> event list \<Rightarrow> (error + bool) \<times> event list" where
  "should_search_images u self q tr =
     (let prompt = classify_prompt q in
      case llm_invoke self tr prompt of
        Inl e \<Rightarrow> (Inl e, tr @ [LlmInvoke prompt])
      | Inr content \<Rightarrow> (Inr (py_in ''YES'' (py_upper u content)), tr @ [LlmInvoke prompt]))"

section \<open>\<^verbatim>\<open>get_text_response_with_images\<close>\<close>

definition plain_prompt :: "string \<Rightarrow> string" where
  "plain_prompt q = ''Answer this query comprehensively: '' @ sq @ q @ sq"

definition context_header :: "nat \<Rightarrow> nat \<Rightarrow> string" where
  "context_header n m =
     nl @ ''I found '' @ dec_nat n @ '' relevant images from '' @ dec_nat m
     @ '' different search perspectives:'' @ nl
     @ nl
     @ ''SEARCH PERSPECTIVES USED:'' @ nl"

text \<open>The loop over the perspectives; \<open>ctx\<close> is \<^verbatim>\<open>image_context\<close>.\<close>

fun perspectives_loop :: "unicode \<Rightarrow> json list \<Rightarrow> string \<Rightarrow> error + string" where
  "perspectives_loop u [] ctx = Inr ctx"
| "perspectives_loop u (p # ps) ctx =
     (case py_get p ''perspective_type'' (JStr ''Unknown'') of
        Inl e \<Rightarrow> Inl e
      | Inr t \<Rightarrow>
     (case py_title_of u t of
        Inl e \<Rightarrow> Inl e
      | Inr tt \<Rightarrow>
     (case py_get p ''query'' (JStr ''N/A'') of
        Inl e \<Rightarrow> Inl e
      | Inr qv \<Rightarrow>
     (case py_get p ''images_found'' (JInt 0) of
        Inl e \<Rightarrow> Inl e
      | Inr n \<Rightarrow>
          perspectives_loop u ps
            (ctx @ bullet @ '' '' @ tt @ '': '' @ sq @ py_str u qv @ sq
                 @ '' ('' @ py_str u n @ '' images)'' @ nl)))))"

text \<open>
  The loop over \<^verbatim>\<open>enumerate(images[:5])\<close>; \<open>i\<close> is the index of the element at
  the head of the list.
\<close>

fun image_details_loop :: "unicode \<Rightarrow> nat \<Rightarrow> json list \<Rightarrow> string \<Rightarrow> error + string" where
  "image_details_loop u i [] ctx = Inr ctx"
| "image_details_loop u i (img # rest) ctx =
     (case py_get img ''title'' (JStr ''Untitled'') of
        Inl e \<Rightarrow> Inl e
      | Inr title \<Rightarrow>
     (case py_get img ''display_link'' (JStr ''N/A'') of
        Inl e \<Rightarrow> Inl e
      | Inr link \<Rightarrow>
     (case py_get img ''perspective_query'' (JStr ''N/A'') of
        Inl e \<Rightarrow> Inl e
      | Inr pq \<Rightarrow>
     (case py_get img ''width'' (JStr ''N/A'') of
        Inl e \<Rightarrow> Inl e
      | Inr w \<Rightarrow>
     (case py_get img ''height'' (JStr ''N/A'') of
        Inl e \<Rightarrow> Inl e
      | Inr h \<Rightarrow>
          image_details_loop u (Suc i) rest
            (ctx @ (dec_nat (i + 1) @ ''. Title: '' @ py_str u title @ nl)
                 @ (''   Source: '' @ py_str u link @ nl)
                 @ (''   Perspective: '' @ py_str u pq @ nl)
                 @ (''   Size: '' @ py_str u w @ ''x'' @ py_str u h @ nl @ nl)))))))"

definition details_header :: string where
  "details_header = nl @ ''IMAGE DETAILS FOUND:'' @ nl"

definition rich_prompt_head :: "string \<Rightarrow> string" where
  "rich_prompt_head q =
     nl @ ''Answer this query comprehensively: '' @ dq @ q @ dq @ nl
     @ nl
     @ ''IMPORTANT: I have found relevant images that provide visual context for this topic. Use this image information to enhance your response:'' @ nl
     @ nl"

definition rich_prompt_tail :: string where
  "rich_prompt_tail =
     nl
     @ nl
     @ ''Guidelines:'' @ nl
     @ ''1. Reference the specific images found and how they relate to your explanation'' @ nl
     @ ''2. Mention the different perspectives covered by the image search'' @ nl
     @ ''3. Explain how the visual content complements your text response'' @ nl
     @ ''4. Provide a comprehensive answer that combines your knowledge with the visual evidence found'' @ nl
     @ nl
     @ ''Provide a detailed response that integrates both textual explanation and references to the visual content discovered.'' @ nl"

text \<open>
  The \<^verbatim>\<open>else\<close> branch, lines 99 to 132: the image context and the prompt around
  it, from the value under \<^verbatim>\<open>'images'\<close> and the dict it came from.
\<close>

definition rich_prompt :: "unicode \<Rightarrow> string \<Rightarrow> json \<Rightarrow> json \<Rightarrow> error + string" where
  "rich_prompt u q images_data imgs =
     (case py_get images_data ''search_perspectives'' (JList []) of
        Inl e \<Rightarrow> Inl e
      | Inr persp \<Rightarrow>
     (case py_len imgs of
        Inl e \<Rightarrow> Inl e
      | Inr n \<Rightarrow>
     (case py_len persp of
        Inl e \<Rightarrow> Inl e
      | Inr m \<Rightarrow>
     (case py_iter persp of
        Inl e \<Rightarrow> Inl e
      | Inr ps \<Rightarrow>
     (case perspectives_loop u ps (context_header n m) of
        Inl e \<Rightarrow> Inl e
      | Inr ctx1 \<Rightarrow>
     (case py_slice_to 5 imgs of
        Inl e \<Rightarrow> Inl e
      | Inr first5 \<Rightarrow>
     (case py_iter first5 of
        Inl e \<Rightarrow> Inl e
      | Inr items \<Rightarrow>
     (case image_details_loop u 0 items (ctx1 @ details_header) of
        Inl e \<Rightarrow> Inl e
      | Inr image_context \<Rightarrow>
          Inr (rich_prompt_head q @ image_context @ rich_prompt_tail)))))))))"

text \<open>
  Lines 94 to 132: the prompt, or the exception raised while it is built.
  \<^verbatim>\<open>None\<close> is \<open>JNull\<close>.
\<close>

definition build_prompt :: "unicode \<Rightarrow> string \<Rightarrow> json \<Rightarrow> error + string" where
  "build_prompt u q images_data =
     (if \<not> py_truthy images_data then Inr (plain_prompt q)
      else
        (case py_get images_data ''images'' JNull of
           Inl e \<Rightarrow> Inl e
         | Inr imgs \<Rightarrow>
             if \<not> py_truthy imgs then Inr (plain_prompt q)
             else rich_prompt u q images_data imgs))"

definition get_text_response_with_images ::
  "unicode \<Rightarrow> assistant \<Rightarrow> string \<Rightarrow> json \<Rightarrow> event list \<Rightarrow> (error + string) \<times> event list" where
  "get_text_response_with_images u self q images_data tr =
     (case build_prompt u q images_data of
        Inl e \<Rightarrow> (Inl e, tr)
      | Inr prompt \<Rightarrow> (llm_invoke self tr prompt, tr @ [LlmInvoke prompt]))"

section \<open>\<^verbatim>\<open>search_images\<close>\<close>

definition actor_id :: string where
  "actor_id = ''loongnian714/ai-query-based-image-finder''"

definition run_input :: "string \<Rightarrow> int \<Rightarrow> json" where
  "run_input q max_results = JDict [(''query'', JStr q), (''maxResults'', JInt max_results)]"

definition search_images ::
  "assistant \<Rightarrow> string \<Rightarrow> int \<Rightarrow> event list \<Rightarrow> (error + json) \<times> event list" where
  "search_images self q max_results tr =
     (let tr1 = tr @ [ActorCall actor_id (run_input q max_results)] in
      case actor_call self tr actor_id (run_input q max_results) of
        Inl e \<Rightarrow> (Inl e, tr1)
      | Inr run \<Rightarrow>
     (case py_index run ''defaultDatasetId'' of
        Inl e \<Rightarrow> (Inl e, tr1)
      | Inr dataset_id \<Rightarrow>
     (case dataset_iterate_items self tr1 dataset_id of
        Inl e \<Rightarrow> (Inl e, tr1 @ [DatasetIterateItems dataset_id])
      | Inr results \<Rightarrow>
          (Inr (case results of [] \<Rightarrow> JDict [] | r # _ \<Rightarrow> r),
           tr1 @ [DatasetIterateItems dataset_id]))))"

section \<open>\<^verbatim>\<open>process_query\<close>\<close>

record processed_result =
  query :: string
  text_response :: string
  images :: json
  total_images :: json
  perspectives :: json
  image_aware_response :: bool

text \<open>
  Line 211 prints the counts. The text goes to the console, which is not modelled;
  the two lookups and the \<^verbatim>\<open>len\<close> are, since they can raise.
\<close>

definition found_report :: "json \<Rightarrow> error + unit" where
  "found_report images_data =
     (case py_get images_data ''total_results'' (JInt 0) of
        Inl e \<Rightarrow> Inl e
      | Inr tot \<Rightarrow>
     (case py_get images_data ''search_perspectives'' (JList []) of
        Inl e \<Rightarrow> Inl e
      | Inr persp \<Rightarrow>
     (case py_len persp of
        Inl e \<Rightarrow> Inl e
      | Inr m \<Rightarrow> Inr ())))"

text \<open>Lines 217 to 224: the returned dict.\<close>

definition assemble :: "string \<Rightarrow> string \<Rightarrow> json \<Rightarrow> error + processed_result" where
  "assemble q text images_data =
     (case py_get images_data ''images'' (JList []) of
        Inl e \<Rightarrow> Inl e
      | Inr imgs \<Rightarrow>
     (case py_get images_data ''total_results'' (JInt 0) of
        Inl e \<Rightarrow> Inl e
      | Inr tot \<Rightarrow>
     (case py_get images_data ''search_perspectives'' (JList []) of
        Inl e \<Rightarrow> Inl e
      | Inr persp \<Rightarrow>
          Inr \<lparr> query = q, text_response = text, images = imgs, total_images = tot,
                perspectives = persp, image_aware_response = py_truthy images_data \<rparr>)))"

definition process_query ::
  "unicode \<Rightarrow> assistant \<Rightarrow> string \<Rightarrow> event list \<Rightarrow> (error + processed_result) \<times> event list" where
  "process_query u self q tr =
     (case should_search_images u self q tr of
        (Inl e, tr1) \<Rightarrow> (Inl e, tr1)
      | (Inr needs_images, tr1) \<Rightarrow>
     (case (if needs_images
            then (case search_images self q 10 tr1 of
                    (Inl e, tr2) \<Rightarrow> (Inl e, tr2)
                  | (Inr found, tr2) \<Rightarrow>
                      (case found_report found of
                         Inl e \<Rightarrow> (Inl e, tr2)
                       | Inr ok \<Rightarrow> (Inr found, tr2)))
            else (Inr (JDict []), tr1)) of
        (Inl e, tr2) \<Rightarrow> (Inl e, tr2)
      | (Inr images_data, tr2) \<Rightarrow>
     (case get_text_response_with_images u self q images_data tr2 of
        (Inl e, tr3) \<Rightarrow> (Inl e, tr3)
      | (Inr text, tr3) \<Rightarrow> (assemble q text images_data, tr3))))"

section \<open>The prompt as the specification describes it\<close>

text \<open>
  These three functions are not taken from the source: they say, in the words of the
  specification, what one image entry and one perspective line of the composite prompt
  look like, with a literal placeholder wherever a key is missing from the record. The
  theorems below compare the loops of the source with them.
\<close>

definition field_or :: "unicode \<Rightarrow> (string \<times> json) list \<Rightarrow> string \<Rightarrow> string \<Rightarrow> string" where
  "field_or u d k placeholder =
     (case map_of d k of None \<Rightarrow> placeholder | Some v \<Rightarrow> py_str u v)"

definition image_entry :: "unicode \<Rightarrow> nat \<Rightarrow> (string \<times> json) list \<Rightarrow> string" where
  "image_entry u i d =
     dec_nat (i + 1) @ ''. Title: '' @ field_or u d ''title'' ''Untitled'' @ nl
     @ ''   Source: '' @ field_or u d ''display_link'' ''N/A'' @ nl
     @ ''   Perspective: '' @ field_or u d ''perspective_query'' ''N/A'' @ nl
     @ ''   Size: '' @ field_or u d ''width'' ''N/A'' @ ''x'' @ field_or u d ''height'' ''N/A''
     @ nl @ nl"

text \<open>
  The line of a perspective record whose \<^verbatim>\<open>perspective_type\<close> is missing (\<open>None\<close>) or
  the text \<open>s\<close> (\<open>Some s\<close>).
\<close>

definition perspective_line ::
  "unicode \<Rightarrow> string option \<Rightarrow> (string \<times> json) list \<Rightarrow> string" where
  "perspective_line u ty d =
     bullet @ '' ''
     @ (case ty of None \<Rightarrow> ''Unknown'' | Some s \<Rightarrow> py_title u s)
     @ '': '' @ sq @ field_or u d ''query'' ''N/A'' @ sq
     @ '' ('' @ field_or u d ''images_found'' ''0'' @ '' images)'' @ nl"

section \<open>Test doubles\<close>

text \<open>
  An assistant with canned collaborators: the first call to the text model (on an
  empty history) gets \<open>verdict\<close>, every later one \<open>answer\<close>; the actor run yields
  \<open>run\<close> and the dataset \<open>items\<close>.
\<close>

text \<open>
  A fragment of the character database, enough for the examples: the long s (U+017F)
  has the uppercase form S and the sharp s (U+00DF) the form SS. The examples hold no
  other character outside ASCII.
\<close>

definition sample_unicode :: unicode where
  "sample_unicode =
     \<lparr> upper_of = (\<lambda>ch. if ch = [CHR 0xC5, CHR 0xBF] then ''S''
                           else if ch = [CHR 0xC3, CHR 0x9F] then ''SS'' else ch),
       title_of = (\<lambda>s. s),
       repr_of = (\<lambda>ch. ch) \<rparr>"

definition stub_assistant ::
  "(error + string) \<Rightarrow> (error + json) \<Rightarrow> (error + json list) \<Rightarrow> (error + string) \<Rightarrow> assistant" where
  "stub_assistant verdict run items answer =
     \<lparr> llm_invoke = (\<lambda>tr prompt. if tr = [] then verdict else answer),
       actor_call = (\<lambda>tr name inp. run),
       dataset_iterate_items = (\<lambda>tr dataset_id. items) \<rparr>"

section \<open>Facts about the Python operations\<close>

lemma starts_with_iff: "starts_with n s \<longleftrightarrow> (\<exists>suf. s = n @ suf)"
  by (induction n s rule: starts_with.induct) auto

lemma py_in_iff: "py_in n h \<longleftrightarrow> (\<exists>pre suf. h = pre @ n @ suf)"
proof (induction h)
  case Nil
  then show ?case by auto
next
  case (Cons c cs)
  show ?case
  proof
    assume "py_in n (c # cs)"
    then consider "starts_with n (c # cs)" | "py_in n cs" by auto
    then show "\<exists>pre suf. c # cs = pre @ n @ suf"
    proof cases
      case 1
      then obtain suf where "c # cs = n @ suf" by (auto simp: starts_with_iff)
      then have "c # cs = [] @ n @ suf" by simp
      then show ?thesis by blast
    next
      case 2
      then obtain pre suf where "cs = pre @ n @ suf" using Cons.IH by auto
      then have "c # cs = (c # pre) @ n @ suf" by simp
      then show ?thesis by blast
    qed
  next
    assume "\<exists>pre suf. c # cs = pre @ n @ suf"
    then obtain pre suf where eq: "c # cs = pre @ n @ suf" by auto
    show "py_in n (c # cs)"
    proof (cases pre)
      case Nil
      then have "starts_with n (c # cs)" using eq by (auto simp: starts_with_iff)
      then show ?thesis by simp
    next
      case (Cons a pre')
      then have "cs = pre' @ n @ suf" using eq by simp
      then have "py_in n cs" using Cons.IH by blast
      then show ?thesis by simp
    qed
  qed
qed

lemma takeWhile_append_stop: "\<not> P c \<Longrightarrow> takeWhile P (xs @ c # ys) = takeWhile P xs"
  by (induction xs) auto

lemma dropWhile_append_stop: "\<not> P c \<Longrightarrow> dropWhile P (xs @ c # ys) = dropWhile P xs @ c # ys"
  by (induction xs) auto

text \<open>A byte that begins a character cuts the text in two.\<close>

lemma utf8_chars_append:
  "\<not> is_continuation c \<Longrightarrow>
   utf8_chars (pre @ c # rest) = utf8_chars pre @ utf8_chars (c # rest)"
proof (induction pre rule: utf8_chars.induct)
  case 1
  then show ?case by simp
next
  case (2 p ps)
  have "utf8_chars ((p # ps) @ c # rest)
      = (p # takeWhile is_continuation ps)
          # utf8_chars (dropWhile is_continuation ps @ c # rest)"
    using "2.prems" by (simp add: takeWhile_append_stop dropWhile_append_stop)
  also have "\<dots> = (p # takeWhile is_continuation ps)
          # (utf8_chars (dropWhile is_continuation ps) @ utf8_chars (c # rest))"
    using "2.IH" [OF "2.prems"] by simp
  finally show ?case by simp
qed

lemma each_char_append:
  "\<not> is_continuation c \<Longrightarrow>
   each_char f g (pre @ c # rest) = each_char f g pre @ each_char f g (c # rest)"
  by (simp add: each_char_def utf8_chars_append)

lemma py_upper_append:
  "\<not> is_continuation c \<Longrightarrow>
   py_upper u (pre @ c # rest) = py_upper u pre @ py_upper u (c # rest)"
  unfolding py_upper_def by (rule each_char_append)

lemma upper_yes: "py_upper u ''Yes'' = ''YES''"
  by code_simp

lemma upper_yes_absolutely:
  "py_upper u (pre @ ''Yes, absolutely'' @ suf)
     = py_upper u pre @ ''YES'' @ py_upper u ('', absolutely'' @ suf)"
proof -
  have y: "\<not> is_continuation CHR ''Y''" and c: "\<not> is_continuation CHR '',''"
    by (simp_all add: is_continuation_def)
  have "py_upper u (pre @ ''Yes, absolutely'' @ suf)
      = py_upper u pre @ py_upper u (''Yes, absolutely'' @ suf)"
    using py_upper_append [OF y, of u pre "''es, absolutely'' @ suf"] by simp
  also have "py_upper u (''Yes, absolutely'' @ suf)
      = py_upper u ''Yes'' @ py_upper u ('', absolutely'' @ suf)"
    using py_upper_append [OF c, of u "''Yes''" "'' absolutely'' @ suf"] by simp
  finally show ?thesis by (simp add: upper_yes)
qed

lemma upper_no: "\<not> py_in ''YES'' (py_upper u ''No.'')"
  by code_simp

lemma upper_long_s: "py_upper sample_unicode [CHR ''y'', CHR ''e'', CHR 0xC5, CHR 0xBF] = ''YES''"
  by code_simp

section \<open>Classification\<close>

text \<open>
  C2. Whatever text the model returns for the classification prompt,
  \<^verbatim>\<open>should_search_images\<close> returns true exactly when the uppercased text has
  \<^verbatim>\<open>YES\<close> as a contiguous substring: true for any text containing
  \<^verbatim>\<open>Yes, absolutely\<close>, false for the text \<^verbatim>\<open>No.\<close>. The uppercased text is Python's,
  for every text and whatever the character database says outside ASCII.
\<close>

theorem should_search_images_yes_substring:
  assumes "llm_invoke self tr (classify_prompt q) = Inr content"
  shows "fst (should_search_images u self q tr)
           = Inr (\<exists>pre suf. py_upper u content = pre @ ''YES'' @ suf)
         \<and> (\<forall>pre suf. content = pre @ ''Yes, absolutely'' @ suf
              \<longrightarrow> fst (should_search_images u self q tr) = Inr True)
         \<and> (content = ''No.'' \<longrightarrow> fst (should_search_images u self q tr) = Inr False)"
proof -
  have res: "fst (should_search_images u self q tr) = Inr (py_in ''YES'' (py_upper u content))"
    using assms by (simp add: should_search_images_def Let_def)
  have yes: "py_in ''YES'' (py_upper u content)"
    if "content = pre @ ''Yes, absolutely'' @ suf" for pre suf
  proof -
    have "py_upper u content = py_upper u pre @ ''YES'' @ py_upper u ('', absolutely'' @ suf)"
      using that by (simp only: upper_yes_absolutely)
    then show ?thesis unfolding py_in_iff by blast
  qed
  have no: "\<not> py_in ''YES'' (py_upper u content)" if "content = ''No.''"
    using that upper_no by simp
  show ?thesis using res yes no by (simp add: py_in_iff)
qed

theorem should_search_images_yes_substring_witness:
  "fst (should_search_images sample_unicode
          (stub_assistant (Inr ''Well... Yes, absolutely!'') (Inl KeyError) (Inl KeyError) (Inl KeyError))
          ''red pandas'' []) = Inr True
   \<and> fst (should_search_images sample_unicode
          (stub_assistant (Inr ''No.'') (Inl KeyError) (Inl KeyError) (Inl KeyError))
          ''red pandas'' []) = Inr False
   \<and> fst (should_search_images sample_unicode
          (stub_assistant (Inr [CHR ''y'', CHR ''e'', CHR 0xC5, CHR 0xBF]) (Inl KeyError)
             (Inl KeyError) (Inl KeyError))
          ''red pandas'' []) = Inr True"
proof -
  let ?a = "stub_assistant (Inr ''Well... Yes, absolutely!'') (Inl KeyError) (Inl KeyError) (Inl KeyError)"
  let ?b = "stub_assistant (Inr ''No.'') (Inl KeyError) (Inl KeyError) (Inl KeyError)"
  let ?c = "stub_assistant (Inr [CHR ''y'', CHR ''e'', CHR 0xC5, CHR 0xBF]) (Inl KeyError)
             (Inl KeyError) (Inl KeyError)"
  have ha: "llm_invoke ?a [] (classify_prompt ''red pandas'') = Inr ''Well... Yes, absolutely!''"
    by (simp add: stub_assistant_def)
  have hb: "llm_invoke ?b [] (classify_prompt ''red pandas'') = Inr ''No.''"
    by (simp add: stub_assistant_def)
  have hc: "llm_invoke ?c [] (classify_prompt ''red pandas'')
              = Inr [CHR ''y'', CHR ''e'', CHR 0xC5, CHR 0xBF]"
    by (simp add: stub_assistant_def)
  have ca: "''Well... Yes, absolutely!'' = ''Well... '' @ ''Yes, absolutely'' @ ''!''"
    by simp
  have cc: "\<exists>pre suf. py_upper sample_unicode [CHR ''y'', CHR ''e'', CHR 0xC5, CHR 0xBF]
                        = pre @ ''YES'' @ suf"
    using upper_long_s by (intro exI [of _ "[]"]) simp
  have first: "fst (should_search_images sample_unicode ?a ''red pandas'' []) = Inr True"
    using should_search_images_yes_substring [OF ha, of sample_unicode] ca by blast
  have second: "fst (should_search_images sample_unicode ?b ''red pandas'' []) = Inr False"
    using should_search_images_yes_substring [OF hb, of sample_unicode] by blast
  have third: "fst (should_search_images sample_unicode ?c ''red pandas'' []) = Inr True"
    using should_search_images_yes_substring [OF hc, of sample_unicode] cc by simp
  from first second third show ?thesis by blast
qed

section \<open>Composing and searching\<close>

lemma should_search_images_trace:
  "snd (should_search_images u self q tr) = tr @ [LlmInvoke (classify_prompt q)]"
  by (simp add: should_search_images_def Let_def split: sum.splits)

lemma should_search_images_result:
  "fst (should_search_images u self q tr) =
     (case llm_invoke self tr (classify_prompt q) of
        Inl e \<Rightarrow> Inl e
      | Inr content \<Rightarrow> Inr (py_in ''YES'' (py_upper u content)))"
  by (simp add: should_search_images_def Let_def split: sum.splits)

lemma build_prompt_falsy: "\<not> py_truthy d \<Longrightarrow> build_prompt u q d = Inr (plain_prompt q)"
  by (simp add: build_prompt_def)

lemma build_prompt_dict:
  "build_prompt u q (JDict kvs) =
     (if kvs = [] \<or> \<not> py_truthy (dict_get kvs ''images'' JNull) then Inr (plain_prompt q)
      else rich_prompt u q (JDict kvs) (dict_get kvs ''images'' JNull))"
  by (simp add: build_prompt_def)

lemma get_text_response_plain:
  "build_prompt u q d = Inr p \<Longrightarrow>
   get_text_response_with_images u self q d tr = (llm_invoke self tr p, tr @ [LlmInvoke p])"
  by (simp add: get_text_response_with_images_def)

text \<open>
  C5. When \<^verbatim>\<open>get_text_response_with_images\<close> is given \<^verbatim>\<open>None\<close>, the empty dict,
  or a dict whose \<^verbatim>\<open>images\<close> entry is absent or the empty list, the one prompt it
  sends to the text model is \<^verbatim>\<open>Answer this query comprehensively: '<query>'\<close> with the
  query substituted, character for character, and it returns what the model answers.
\<close>

theorem plain_prompt_without_images:
  assumes "d = JNull \<or> d = JDict []
           \<or> (\<exists>kvs. d = JDict kvs
                  \<and> (map_of kvs ''images'' = None \<or> map_of kvs ''images'' = Some (JList [])))"
  shows "get_text_response_with_images u self q d tr
           = (llm_invoke self tr (''Answer this query comprehensively: '' @ [CHR 0x27] @ q @ [CHR 0x27]),
              tr @ [LlmInvoke (''Answer this query comprehensively: '' @ [CHR 0x27] @ q @ [CHR 0x27])])"
proof -
  have "build_prompt u q d = Inr (plain_prompt q)"
    using assms by (auto simp: build_prompt_falsy build_prompt_dict dict_get_def)
  then show ?thesis
    by (simp add: get_text_response_plain plain_prompt_def sq_def)
qed

theorem plain_prompt_without_images_witness:
  "snd (get_text_response_with_images sample_unicode (stub_assistant (Inr ''NO'') (Inl KeyError) (Inl KeyError) (Inr ''ok'')) ''Ada'' JNull [])
     = [LlmInvoke (''Answer this query comprehensively: '' @ [CHR 0x27] @ ''Ada'' @ [CHR 0x27])]
   \<and> snd (get_text_response_with_images sample_unicode (stub_assistant (Inr ''NO'') (Inl KeyError) (Inl KeyError) (Inr ''ok'')) ''Ada'' (JDict []) [])
     = [LlmInvoke (''Answer this query comprehensively: '' @ [CHR 0x27] @ ''Ada'' @ [CHR 0x27])]
   \<and> snd (get_text_response_with_images sample_unicode (stub_assistant (Inr ''NO'') (Inl KeyError) (Inl KeyError) (Inr ''ok'')) ''Ada''
            (JDict [(''total_results'', JInt 3)]) [])
     = [LlmInvoke (''Answer this query comprehensively: '' @ [CHR 0x27] @ ''Ada'' @ [CHR 0x27])]
   \<and> snd (get_text_response_with_images sample_unicode (stub_assistant (Inr ''NO'') (Inl KeyError) (Inl KeyError) (Inr ''ok'')) ''Ada''
            (JDict [(''images'', JList [])]) [])
     = [LlmInvoke (''Answer this query comprehensively: '' @ [CHR 0x27] @ ''Ada'' @ [CHR 0x27])]"
proof -
  let ?a = "stub_assistant (Inr ''NO'') (Inl KeyError) (Inl KeyError) (Inr ''ok'')"
  have 1: "JNull = JNull \<or> JNull = JDict []
           \<or> (\<exists>kvs. JNull = JDict kvs
                  \<and> (map_of kvs ''images'' = None \<or> map_of kvs ''images'' = Some (JList [])))"
    by simp
  have 2: "JDict [] = JNull \<or> JDict [] = JDict []
           \<or> (\<exists>kvs. JDict [] = JDict kvs
                  \<and> (map_of kvs ''images'' = None \<or> map_of kvs ''images'' = Some (JList [])))"
    by simp
  have 3: "JDict [(''total_results'', JInt 3)] = JNull \<or> JDict [(''total_results'', JInt 3)] = JDict []
           \<or> (\<exists>kvs. JDict [(''total_results'', JInt 3)] = JDict kvs
                  \<and> (map_of kvs ''images'' = None \<or> map_of kvs ''images'' = Some (JList [])))"
    by simp
  have 4: "JDict [(''images'', JList [])] = JNull \<or> JDict [(''images'', JList [])] = JDict []
           \<or> (\<exists>kvs. JDict [(''images'', JList [])] = JDict kvs
                  \<and> (map_of kvs ''images'' = None \<or> map_of kvs ''images'' = Some (JList [])))"
    by simp
  show ?thesis
    using plain_prompt_without_images [OF 1, of sample_unicode ?a "''Ada''" "[]"]
          plain_prompt_without_images [OF 2, of sample_unicode ?a "''Ada''" "[]"]
          plain_prompt_without_images [OF 3, of sample_unicode ?a "''Ada''" "[]"]
          plain_prompt_without_images [OF 4, of sample_unicode ?a "''Ada''" "[]"]
    by simp
qed

lemma search_images_ok:
  assumes "actor_call self tr actor_id (run_input q n) = Inr run"
      and "py_index run ''defaultDatasetId'' = Inr ds"
      and "dataset_iterate_items self (tr @ [ActorCall actor_id (run_input q n)]) ds = Inr results"
  shows "search_images self q n tr
           = (Inr (case results of [] \<Rightarrow> JDict [] | r # _ \<Rightarrow> r),
              tr @ [ActorCall actor_id (run_input q n), DatasetIterateItems ds])"
  using assms by (simp add: search_images_def Let_def)

text \<open>
  C6. When the actor run returns and its dataset is read, \<^verbatim>\<open>search_images\<close> has
  first called the actor and then read the dataset of that run, and returns the first
  record, or the empty dict when there is none; composing a response from that empty
  dict sends the plain prompt.
\<close>

theorem search_images_first_record_or_empty:
  assumes "actor_call self tr actor_id (run_input q n) = Inr run"
      and "py_index run ''defaultDatasetId'' = Inr ds"
      and "dataset_iterate_items self (tr @ [ActorCall actor_id (run_input q n)]) ds = Inr results"
  shows "search_images self q n tr
           = (Inr (if results = [] then JDict [] else hd results),
              tr @ [ActorCall actor_id (run_input q n), DatasetIterateItems ds])
         \<and> (results = [] \<longrightarrow>
              fst (search_images self q n tr) = Inr (JDict [])
              \<and> get_text_response_with_images u self q (JDict [])
                  (tr @ [ActorCall actor_id (run_input q n), DatasetIterateItems ds])
                = (llm_invoke self (tr @ [ActorCall actor_id (run_input q n), DatasetIterateItems ds])
                     (''Answer this query comprehensively: '' @ [CHR 0x27] @ q @ [CHR 0x27]),
                   tr @ [ActorCall actor_id (run_input q n), DatasetIterateItems ds,
                         LlmInvoke (''Answer this query comprehensively: '' @ [CHR 0x27] @ q @ [CHR 0x27])]))"
proof -
  have "(case results of [] \<Rightarrow> JDict [] | r # _ \<Rightarrow> r) = (if results = [] then JDict [] else hd results)"
    by (cases results) simp_all
  then have first: "search_images self q n tr
           = (Inr (if results = [] then JDict [] else hd results),
              tr @ [ActorCall actor_id (run_input q n), DatasetIterateItems ds])"
    using search_images_ok [OF assms] by simp
  have "build_prompt u q (JDict []) = Inr (plain_prompt q)"
    by (simp add: build_prompt_falsy)
  then have "get_text_response_with_images u self q (JDict []) t
                = (llm_invoke self t (''Answer this query comprehensively: '' @ [CHR 0x27] @ q @ [CHR 0x27]),
                   t @ [LlmInvoke (''Answer this query comprehensively: '' @ [CHR 0x27] @ q @ [CHR 0x27])])" for t
    by (simp add: get_text_response_plain plain_prompt_def sq_def)
  with first show ?thesis by simp
qed

theorem search_images_first_record_or_empty_witness:
  "fst (search_images (stub_assistant (Inr ''YES'') (Inr (JDict [(''defaultDatasetId'', JStr ''d1'')])) (Inr []) (Inr ''ok'')) ''Ada'' 10 [])
     = Inr (JDict [])
   \<and> fst (search_images (stub_assistant (Inr ''YES'') (Inr (JDict [(''defaultDatasetId'', JStr ''d1'')]))
             (Inr [JDict [(''total_results'', JInt 1)], JDict []]) (Inr ''ok'')) ''Ada'' 10 [])
     = Inr (JDict [(''total_results'', JInt 1)])
   \<and> snd (get_text_response_with_images sample_unicode
            (stub_assistant (Inr ''YES'') (Inr (JDict [(''defaultDatasetId'', JStr ''d1'')])) (Inr []) (Inr ''ok''))
            ''Ada'' (JDict [])
            [ActorCall actor_id (run_input ''Ada'' 10), DatasetIterateItems (JStr ''d1'')])
     = [ActorCall actor_id (run_input ''Ada'' 10), DatasetIterateItems (JStr ''d1''),
        LlmInvoke (''Answer this query comprehensively: '' @ [CHR 0x27] @ ''Ada'' @ [CHR 0x27])]"
proof -
  let ?run = "JDict [(''defaultDatasetId'', JStr ''d1'')]"
  let ?a = "stub_assistant (Inr ''YES'') (Inr ?run) (Inr []) (Inr ''ok'')"
  let ?b = "stub_assistant (Inr ''YES'') (Inr ?run) (Inr [JDict [(''total_results'', JInt 1)], JDict []]) (Inr ''ok'')"
  have a1: "actor_call ?a [] actor_id (run_input ''Ada'' 10) = Inr ?run"
    by (simp add: stub_assistant_def)
  have b1: "actor_call ?b [] actor_id (run_input ''Ada'' 10) = Inr ?run"
    by (simp add: stub_assistant_def)
  have ix: "py_index ?run ''defaultDatasetId'' = Inr (JStr ''d1'')"
    by simp
  have a2: "dataset_iterate_items ?a ([] @ [ActorCall actor_id (run_input ''Ada'' 10)]) (JStr ''d1'') = Inr []"
    by (simp add: stub_assistant_def)
  have b2: "dataset_iterate_items ?b ([] @ [ActorCall actor_id (run_input ''Ada'' 10)]) (JStr ''d1'')
              = Inr [JDict [(''total_results'', JInt 1)], JDict []]"
    by (simp add: stub_assistant_def)
  show ?thesis
    using search_images_first_record_or_empty [OF a1 ix a2]
          search_images_first_record_or_empty [OF b1 ix b2]
    by simp
qed

section \<open>The orchestration\<close>

lemma assemble_dict:
  "assemble q text (JDict kvs)
     = Inr \<lparr> query = q, text_response = text,
             images = dict_get kvs ''images'' (JList []),
             total_images = dict_get kvs ''total_results'' (JInt 0),
             perspectives = dict_get kvs ''search_perspectives'' (JList []),
             image_aware_response = (kvs \<noteq> []) \<rparr>"
  by (simp add: assemble_def)

lemma assemble_Inr_dict: "assemble q text d = Inr r \<Longrightarrow> \<exists>kvs. d = JDict kvs"
  by (cases d) (simp_all add: assemble_def)

lemma found_report_dict:
  "found_report (JDict kvs)
     = (case py_len (dict_get kvs ''search_perspectives'' (JList [])) of
          Inl e \<Rightarrow> Inl e | Inr m \<Rightarrow> Inr ())"
  by (simp add: found_report_def)

lemma process_query_no_images:
  assumes "should_search_images u self q tr = (Inr False, tr1)"
  shows "process_query u self q tr
           = (case llm_invoke self tr1 (plain_prompt q) of
                Inl e \<Rightarrow> Inl e
              | Inr text \<Rightarrow>
                  Inr \<lparr> query = q, text_response = text, images = JList [],
                        total_images = JInt 0, perspectives = JList [],
                        image_aware_response = False \<rparr>,
              tr1 @ [LlmInvoke (plain_prompt q)])"
  using assms
  by (simp add: process_query_def get_text_response_plain build_prompt_falsy assemble_dict
        dict_get_def split: sum.splits)

lemma process_query_with_images:
  assumes "should_search_images u self q tr = (Inr True, tr1)"
  shows "process_query u self q tr
           = (case search_images self q 10 tr1 of
                (Inl e, tr2) \<Rightarrow> (Inl e, tr2)
              | (Inr found, tr2) \<Rightarrow>
                  (case found_report found of
                     Inl e \<Rightarrow> (Inl e, tr2)
                   | Inr ok \<Rightarrow>
                       (case get_text_response_with_images u self q found tr2 of
                          (Inl e, tr3) \<Rightarrow> (Inl e, tr3)
                        | (Inr text, tr3) \<Rightarrow> (assemble q text found, tr3))))"
  using assms by (simp add: process_query_def split: sum.splits prod.splits)

lemma should_search_images_cases:
  obtains (failed) e where "should_search_images u self q tr = (Inl e, tr @ [LlmInvoke (classify_prompt q)])"
  | (text_only) "should_search_images u self q tr = (Inr False, tr @ [LlmInvoke (classify_prompt q)])"
  | (needs_images) "should_search_images u self q tr = (Inr True, tr @ [LlmInvoke (classify_prompt q)])"
proof -
  have s: "snd (should_search_images u self q tr) = tr @ [LlmInvoke (classify_prompt q)]"
    by (rule should_search_images_trace)
  show thesis
  proof (cases "fst (should_search_images u self q tr)")
    case (Inl e)
    with s have "should_search_images u self q tr = (Inl e, tr @ [LlmInvoke (classify_prompt q)])"
      by (simp add: prod_eq_iff)
    then show ?thesis by (rule failed)
  next
    case (Inr b)
    with s have "should_search_images u self q tr = (Inr b, tr @ [LlmInvoke (classify_prompt q)])"
      by (simp add: prod_eq_iff)
    then show ?thesis using text_only needs_images by (cases b) auto
  qed
qed

lemma process_query_failed_classification:
  assumes "should_search_images u self q tr = (Inl e, tr1)"
  shows "process_query u self q tr = (Inl e, tr1)"
  using assms by (simp add: process_query_def)

text \<open>
  C1. In every result that \<^verbatim>\<open>process_query\<close> returns, \<^verbatim>\<open>image_aware_response\<close> is true
  exactly when the classification said yes and the search step returned a non-empty
  record; when it is false (as it is whenever the classification says no), \<^verbatim>\<open>images\<close>
  and \<^verbatim>\<open>perspectives\<close> are the empty list and \<^verbatim>\<open>total_images\<close> is 0.
\<close>

theorem image_aware_iff_nonempty_search_result:
  assumes "fst (process_query u self q tr) = Inr r"
  shows "(image_aware_response r \<longleftrightarrow>
            (\<exists>tr1 kvs tr2. should_search_images u self q tr = (Inr True, tr1)
                \<and> search_images self q 10 tr1 = (Inr (JDict kvs), tr2) \<and> kvs \<noteq> []))
         \<and> (\<not> image_aware_response r \<longrightarrow>
              images r = JList [] \<and> perspectives r = JList [] \<and> total_images r = JInt 0)
         \<and> (fst (should_search_images u self q tr) = Inr False \<longrightarrow>
              \<not> image_aware_response r \<and> images r = JList [] \<and> perspectives r = JList []
              \<and> total_images r = JInt 0)"
proof (cases rule: should_search_images_cases [of u self q tr])
  case (failed e)
  then show ?thesis using assms by (simp add: process_query_failed_classification)
next
  case text_only
  from process_query_no_images [OF text_only] assms
  have "\<not> image_aware_response r \<and> images r = JList [] \<and> perspectives r = JList []
      \<and> total_images r = JInt 0"
    by (auto split: sum.splits)
  with text_only show ?thesis by simp
next
  case needs_images
  let ?tr1 = "tr @ [LlmInvoke (classify_prompt q)]"
  obtain res tr2 where search: "search_images self q 10 ?tr1 = (res, tr2)"
    by (cases "search_images self q 10 ?tr1")
  from process_query_with_images [OF needs_images] assms search
  obtain found answer where res: "res = Inr found" and asm: "assemble q answer found = Inr r"
    by (auto split: sum.splits prod.splits)
  from asm obtain kvs where found: "found = JDict kvs"
    using assemble_Inr_dict by blast
  from asm found have r: "image_aware_response r = (kvs \<noteq> [])"
    "images r = dict_get kvs ''images'' (JList [])"
    "perspectives r = dict_get kvs ''search_perspectives'' (JList [])"
    "total_images r = dict_get kvs ''total_results'' (JInt 0)"
    by (auto simp: assemble_dict)
  have iff: "image_aware_response r \<longleftrightarrow>
            (\<exists>tr1 kvs tr2. should_search_images u self q tr = (Inr True, tr1)
                \<and> search_images self q 10 tr1 = (Inr (JDict kvs), tr2) \<and> kvs \<noteq> [])"
    using needs_images search res found r(1) by auto
  have empty: "\<not> image_aware_response r \<longrightarrow>
              images r = JList [] \<and> perspectives r = JList [] \<and> total_images r = JInt 0"
    using r by (simp add: dict_get_def)
  show ?thesis using iff empty needs_images by simp
qed


theorem image_aware_iff_nonempty_search_result_witness:
  "fst (process_query sample_unicode
          (stub_assistant (Inr ''no'') (Inl KeyError) (Inl KeyError) (Inr ''A language.''))
          ''What is Python?'' [])
     = Inr \<lparr> query = ''What is Python?'', text_response = ''A language.'', images = JList [],
             total_images = JInt 0, perspectives = JList [], image_aware_response = False \<rparr>
   \<and> \<not> (\<exists>tr1 kvs tr2.
         should_search_images sample_unicode
           (stub_assistant (Inr ''no'') (Inl KeyError) (Inl KeyError) (Inr ''A language.''))
           ''What is Python?'' [] = (Inr True, tr1)
         \<and> search_images
           (stub_assistant (Inr ''no'') (Inl KeyError) (Inl KeyError) (Inr ''A language.''))
           ''What is Python?'' 10 tr1 = (Inr (JDict kvs), tr2)
         \<and> kvs \<noteq> [])
   \<and> fst (process_query sample_unicode
          (stub_assistant (Inr ''YES'') (Inr (JDict [(''defaultDatasetId'', JStr ''d1'')]))
             (Inr [JDict [(''images'', JList [JDict [(''title'', JStr ''Dash'')]]),
                          (''total_results'', JInt 1)]])
             (Inr ''See the images.''))
          ''Tesla dashboard'' [])
     = Inr \<lparr> query = ''Tesla dashboard'', text_response = ''See the images.'',
             images = JList [JDict [(''title'', JStr ''Dash'')]],
             total_images = JInt 1, perspectives = JList [], image_aware_response = True \<rparr>
   \<and> (\<exists>tr1 kvs tr2.
         should_search_images sample_unicode
           (stub_assistant (Inr ''YES'') (Inr (JDict [(''defaultDatasetId'', JStr ''d1'')]))
              (Inr [JDict [(''images'', JList [JDict [(''title'', JStr ''Dash'')]]),
                           (''total_results'', JInt 1)]])
              (Inr ''See the images.''))
           ''Tesla dashboard'' [] = (Inr True, tr1)
         \<and> search_images
           (stub_assistant (Inr ''YES'') (Inr (JDict [(''defaultDatasetId'', JStr ''d1'')]))
              (Inr [JDict [(''images'', JList [JDict [(''title'', JStr ''Dash'')]]),
                           (''total_results'', JInt 1)]])
              (Inr ''See the images.''))
           ''Tesla dashboard'' 10 tr1 = (Inr (JDict kvs), tr2)
         \<and> kvs \<noteq> [])
   \<and> fst (process_query sample_unicode
          (stub_assistant (Inr ''YES'') (Inr (JDict [(''defaultDatasetId'', JStr ''d1'')]))
             (Inr []) (Inr ''Nothing to show.''))
          ''Tesla dashboard'' [])
     = Inr \<lparr> query = ''Tesla dashboard'', text_response = ''Nothing to show.'', images = JList [],
             total_images = JInt 0, perspectives = JList [], image_aware_response = False \<rparr>"
proof -
  let ?a = "stub_assistant (Inr ''no'') (Inl KeyError) (Inl KeyError) (Inr ''A language.'')"
  let ?b = "stub_assistant (Inr ''YES'') (Inr (JDict [(''defaultDatasetId'', JStr ''d1'')]))
              (Inr [JDict [(''images'', JList [JDict [(''title'', JStr ''Dash'')]]),
                           (''total_results'', JInt 1)]])
              (Inr ''See the images.'')"
  let ?c = "stub_assistant (Inr ''YES'') (Inr (JDict [(''defaultDatasetId'', JStr ''d1'')]))
              (Inr []) (Inr ''Nothing to show.'')"
  let ?ra = "\<lparr> query = ''What is Python?'', text_response = ''A language.'', images = JList [],
               total_images = JInt 0, perspectives = JList [], image_aware_response = False \<rparr>"
  let ?rb = "\<lparr> query = ''Tesla dashboard'', text_response = ''See the images.'',
               images = JList [JDict [(''title'', JStr ''Dash'')]],
               total_images = JInt 1, perspectives = JList [], image_aware_response = True \<rparr>"
  let ?rc = "\<lparr> query = ''Tesla dashboard'', text_response = ''Nothing to show.'', images = JList [],
               total_images = JInt 0, perspectives = JList [], image_aware_response = False \<rparr>"
  have a: "fst (process_query sample_unicode ?a ''What is Python?'' []) = Inr ?ra"
    by code_simp
  have b: "fst (process_query sample_unicode ?b ''Tesla dashboard'' []) = Inr ?rb"
    by code_simp
  have c: "fst (process_query sample_unicode ?c ''Tesla dashboard'' []) = Inr ?rc"
    by code_simp
  have na: "\<not> (\<exists>tr1 kvs tr2.
         should_search_images sample_unicode ?a ''What is Python?'' [] = (Inr True, tr1)
         \<and> search_images ?a ''What is Python?'' 10 tr1 = (Inr (JDict kvs), tr2) \<and> kvs \<noteq> [])"
    using image_aware_iff_nonempty_search_result [OF a] by simp
  have eb: "\<exists>tr1 kvs tr2.
         should_search_images sample_unicode ?b ''Tesla dashboard'' [] = (Inr True, tr1)
         \<and> search_images ?b ''Tesla dashboard'' 10 tr1 = (Inr (JDict kvs), tr2) \<and> kvs \<noteq> []"
    using image_aware_iff_nonempty_search_result [OF b] by simp
  from a na b eb c show ?thesis by blast
qed

text \<open>
  C3. When the classification says yes and the search step returns a non-empty record,
  the returned result has \<^verbatim>\<open>image_aware_response\<close> true, and its \<^verbatim>\<open>images\<close>,
  \<^verbatim>\<open>perspectives\<close> and \<^verbatim>\<open>total_images\<close> are the record's \<^verbatim>\<open>images\<close>,
  \<^verbatim>\<open>search_perspectives\<close> and \<^verbatim>\<open>total_results\<close> unchanged (the defaults \<open>[]\<close>, \<open>[]\<close>, 0
  where the record has no such key). With \<^verbatim>\<open>total_results\<close> 7 and two perspectives,
  \<^verbatim>\<open>total_images\<close> is 7 and \<^verbatim>\<open>perspectives\<close> has length 2, whatever \<^verbatim>\<open>images\<close> holds.
\<close>

theorem result_mirrors_search_result:
  assumes "should_search_images u self q tr = (Inr True, tr1)"
      and "search_images self q 10 tr1 = (Inr (JDict kvs), tr2)"
      and "kvs \<noteq> []"
      and "fst (process_query u self q tr) = Inr r"
  shows "image_aware_response r
         \<and> images r = (case map_of kvs ''images'' of Some v \<Rightarrow> v | None \<Rightarrow> JList [])
         \<and> perspectives r = (case map_of kvs ''search_perspectives'' of Some v \<Rightarrow> v | None \<Rightarrow> JList [])
         \<and> total_images r = (case map_of kvs ''total_results'' of Some v \<Rightarrow> v | None \<Rightarrow> JInt 0)
         \<and> (map_of kvs ''total_results'' = Some (JInt 7)
              \<and> map_of kvs ''search_perspectives'' = Some (JList [p1, p2])
              \<longrightarrow> total_images r = JInt 7 \<and> py_len (perspectives r) = Inr 2)"
proof -
  from process_query_with_images [OF assms(1)] assms(2,4)
  obtain answer where "assemble q answer (JDict kvs) = Inr r"
    by (auto split: sum.splits prod.splits)
  then have r: "image_aware_response r = (kvs \<noteq> [])"
    "images r = dict_get kvs ''images'' (JList [])"
    "perspectives r = dict_get kvs ''search_perspectives'' (JList [])"
    "total_images r = dict_get kvs ''total_results'' (JInt 0)"
    by (auto simp: assemble_dict)
  with assms(3) show ?thesis by (auto simp: dict_get_def)
qed

theorem result_mirrors_search_result_witness:
  "image_aware_response
       \<lparr> query = ''Tesla dashboard'', text_response = ''See the images.'',
         images = JList [JDict [(''title'', JStr ''Dash'')]],
         total_images = JInt 7, perspectives = JList [JDict [], JDict [(''query'', JStr ''x'')]],
         image_aware_response = True \<rparr>
   \<and> total_images
       \<lparr> query = ''Tesla dashboard'', text_response = ''See the images.'',
         images = JList [JDict [(''title'', JStr ''Dash'')]],
         total_images = JInt 7, perspectives = JList [JDict [], JDict [(''query'', JStr ''x'')]],
         image_aware_response = True \<rparr> = JInt 7
   \<and> fst (process_query sample_unicode
       (stub_assistant (Inr ''YES'') (Inr (JDict [(''defaultDatasetId'', JStr ''d1'')]))
              (Inr [JDict [(''images'', JList [JDict [(''title'', JStr ''Dash'')]]),
                           (''search_perspectives'', JList [JDict [], JDict [(''query'', JStr ''x'')]]),
                           (''total_results'', JInt 7)]])
              (Inr ''See the images.''))
       ''Tesla dashboard'' [])
     = Inr \<lparr> query = ''Tesla dashboard'', text_response = ''See the images.'',
         images = JList [JDict [(''title'', JStr ''Dash'')]],
         total_images = JInt 7, perspectives = JList [JDict [], JDict [(''query'', JStr ''x'')]],
         image_aware_response = True \<rparr>"
proof -
  let ?kvs = "[(''images'', JList [JDict [(''title'', JStr ''Dash'')]]),
               (''search_perspectives'', JList [JDict [], JDict [(''query'', JStr ''x'')]]),
               (''total_results'', JInt 7)]"
  let ?a = "stub_assistant (Inr ''YES'') (Inr (JDict [(''defaultDatasetId'', JStr ''d1'')]))
              (Inr [JDict ?kvs]) (Inr ''See the images.'')"
  let ?tr1 = "[LlmInvoke (classify_prompt ''Tesla dashboard'')]"
  let ?tr2 = "?tr1 @ [ActorCall actor_id (run_input ''Tesla dashboard'' 10), DatasetIterateItems (JStr ''d1'')]"
  have 1: "should_search_images sample_unicode ?a ''Tesla dashboard'' [] = (Inr True, ?tr1)"
    by code_simp
  have 2: "search_images ?a ''Tesla dashboard'' 10 ?tr1 = (Inr (JDict ?kvs), ?tr2)"
    by code_simp
  have 3: "?kvs \<noteq> []" by simp
  have 4: "fst (process_query sample_unicode ?a ''Tesla dashboard'' [])
     = Inr \<lparr> query = ''Tesla dashboard'', text_response = ''See the images.'',
         images = JList [JDict [(''title'', JStr ''Dash'')]],
         total_images = JInt 7, perspectives = JList [JDict [], JDict [(''query'', JStr ''x'')]],
         image_aware_response = True \<rparr>"
    by code_simp
  show ?thesis
    using result_mirrors_search_result [OF 1 2 3 4] 4 by simp
qed

lemma search_images_actor_failure:
  assumes "actor_call self tr actor_id (run_input q n) = Inl e"
  shows "search_images self q n tr = (Inl e, tr @ [ActorCall actor_id (run_input q n)])"
  using assms by (simp add: search_images_def Let_def)

lemma search_images_dataset_failure:
  assumes "actor_call self tr actor_id (run_input q n) = Inr run"
      and "py_index run ''defaultDatasetId'' = Inr ds"
      and "dataset_iterate_items self (tr @ [ActorCall actor_id (run_input q n)]) ds = Inl e"
  shows "search_images self q n tr
           = (Inl e, tr @ [ActorCall actor_id (run_input q n), DatasetIterateItems ds])"
  using assms by (simp add: search_images_def Let_def)

lemma search_images_events:
  "\<exists>evs. snd (search_images self q n tr) = tr @ ActorCall actor_id (run_input q n) # evs
         \<and> (evs = [] \<and> (\<exists>e. fst (search_images self q n tr) = Inl e)
              \<or> (\<exists>ds. evs = [DatasetIterateItems ds]))"
  by (auto simp: search_images_def Let_def split: sum.splits)

lemma get_text_response_events:
  "snd (get_text_response_with_images u self q d tr) = tr
     \<and> (\<exists>e. fst (get_text_response_with_images u self q d tr) = Inl e)
   \<or> (\<exists>p. snd (get_text_response_with_images u self q d tr) = tr @ [LlmInvoke p])"
  by (auto simp: get_text_response_with_images_def split: sum.splits)

text \<open>
  C10. \<^verbatim>\<open>image_aware_response\<close> can be true without any image context in the prompt:
  when the classification says yes and the search step returns a non-empty record whose
  \<^verbatim>\<open>images\<close> entry is absent or the empty list (a record with only
  \<^verbatim>\<open>agent_response\<close> or \<^verbatim>\<open>total_results\<close>, say), \<^verbatim>\<open>process_query\<close> returns
  \<^verbatim>\<open>image_aware_response\<close> true and \<^verbatim>\<open>images\<close> empty, and the text response is the
  model's answer to the plain prompt.
\<close>

theorem image_aware_without_image_context:
  assumes "should_search_images u self q tr = (Inr True, tr1)"
      and "search_images self q 10 tr1 = (Inr (JDict kvs), tr2)"
      and "kvs \<noteq> []"
      and "map_of kvs ''images'' = None \<or> map_of kvs ''images'' = Some (JList [])"
      and "py_len (dict_get kvs ''search_perspectives'' (JList [])) = Inr m"
      and "llm_invoke self tr2 (''Answer this query comprehensively: '' @ [CHR 0x27] @ q @ [CHR 0x27])
             = Inr answer"
  shows "process_query u self q tr
           = (Inr \<lparr> query = q, text_response = answer, images = JList [],
                    total_images = dict_get kvs ''total_results'' (JInt 0),
                    perspectives = dict_get kvs ''search_perspectives'' (JList []),
                    image_aware_response = True \<rparr>,
              tr2 @ [LlmInvoke (''Answer this query comprehensively: '' @ [CHR 0x27] @ q @ [CHR 0x27])])"
proof -
  have lit: "plain_prompt q = ''Answer this query comprehensively: '' @ [CHR 0x27] @ q @ [CHR 0x27]"
    by (simp add: plain_prompt_def sq_def)
  have "build_prompt u q (JDict kvs) = Inr (plain_prompt q)"
    using assms(4) by (auto simp: build_prompt_dict dict_get_def)
  then have compose: "get_text_response_with_images u self q (JDict kvs) tr2
      = (Inr answer, tr2 @ [LlmInvoke (plain_prompt q)])"
    using assms(6) by (simp add: get_text_response_plain lit)
  have report: "found_report (JDict kvs) = Inr ()"
    using assms(5) by (simp add: found_report_dict)
  have imgs: "dict_get kvs ''images'' (JList []) = JList []"
    using assms(4) by (auto simp: dict_get_def)
  show ?thesis
    using assms(2,3) compose report imgs
    by (simp add: process_query_with_images [OF assms(1)] assemble_dict lit)
qed

theorem image_aware_without_image_context_witness:
  "process_query sample_unicode
     (stub_assistant (Inr ''YES'') (Inr (JDict [(''defaultDatasetId'', JStr ''d1'')]))
        (Inr [JDict [(''agent_response'', JStr ''nothing found''), (''total_results'', JInt 0)]])
        (Inr ''An answer.''))
     ''Tesla dashboard'' []
   = (Inr \<lparr> query = ''Tesla dashboard'', text_response = ''An answer.'', images = JList [],
            total_images = JInt 0, perspectives = JList [], image_aware_response = True \<rparr>,
      [LlmInvoke (classify_prompt ''Tesla dashboard''),
       ActorCall actor_id (run_input ''Tesla dashboard'' 10),
       DatasetIterateItems (JStr ''d1''),
       LlmInvoke (''Answer this query comprehensively: '' @ [CHR 0x27] @ ''Tesla dashboard'' @ [CHR 0x27])])"
proof -
  let ?kvs = "[(''agent_response'', JStr ''nothing found''), (''total_results'', JInt 0)]"
  let ?a = "stub_assistant (Inr ''YES'') (Inr (JDict [(''defaultDatasetId'', JStr ''d1'')]))
              (Inr [JDict ?kvs]) (Inr ''An answer.'')"
  let ?tr1 = "[LlmInvoke (classify_prompt ''Tesla dashboard'')]"
  let ?tr2 = "?tr1 @ [ActorCall actor_id (run_input ''Tesla dashboard'' 10), DatasetIterateItems (JStr ''d1'')]"
  have 1: "should_search_images sample_unicode ?a ''Tesla dashboard'' [] = (Inr True, ?tr1)"
    by code_simp
  have 2: "search_images ?a ''Tesla dashboard'' 10 ?tr1 = (Inr (JDict ?kvs), ?tr2)"
    by code_simp
  have 3: "?kvs \<noteq> []" by simp
  have 4: "map_of ?kvs ''images'' = None \<or> map_of ?kvs ''images'' = Some (JList [])"
    by simp
  have 5: "py_len (dict_get ?kvs ''search_perspectives'' (JList [])) = Inr 0"
    by (simp add: dict_get_def)
  have 6: "llm_invoke ?a ?tr2 (''Answer this query comprehensively: '' @ [CHR 0x27] @ ''Tesla dashboard'' @ [CHR 0x27])
             = Inr ''An answer.''"
    by (simp add: stub_assistant_def)
  show ?thesis
    using image_aware_without_image_context [OF 1 2 3 4 5 6]
    by (simp add: dict_get_def)
qed

text \<open>
  C9. \<^verbatim>\<open>process_query\<close> catches nothing. Whichever collaborator call raises (the
  classification call to the text model, the actor call, the dataset read, or the final
  call to the text model on either path), \<^verbatim>\<open>process_query\<close> ends there with that
  same exception and returns no result; no later call is made.
\<close>

theorem collaborator_errors_propagate:
  "(llm_invoke self tr (classify_prompt q) = Inl e
      \<longrightarrow> process_query u self q tr = (Inl e, tr @ [LlmInvoke (classify_prompt q)]))
   \<and> (should_search_images u self q tr = (Inr True, tr1)
        \<and> actor_call self tr1 actor_id (run_input q 10) = Inl e
      \<longrightarrow> process_query u self q tr = (Inl e, tr1 @ [ActorCall actor_id (run_input q 10)]))
   \<and> (should_search_images u self q tr = (Inr True, tr1)
        \<and> actor_call self tr1 actor_id (run_input q 10) = Inr run
        \<and> py_index run ''defaultDatasetId'' = Inr ds
        \<and> dataset_iterate_items self (tr1 @ [ActorCall actor_id (run_input q 10)]) ds = Inl e
      \<longrightarrow> process_query u self q tr
            = (Inl e, tr1 @ [ActorCall actor_id (run_input q 10), DatasetIterateItems ds]))
   \<and> (should_search_images u self q tr = (Inr False, tr1)
        \<and> llm_invoke self tr1 (plain_prompt q) = Inl e
      \<longrightarrow> process_query u self q tr = (Inl e, tr1 @ [LlmInvoke (plain_prompt q)]))
   \<and> (should_search_images u self q tr = (Inr True, tr1)
        \<and> search_images self q 10 tr1 = (Inr found, tr2)
        \<and> found_report found = Inr ()
        \<and> build_prompt u q found = Inr p
        \<and> llm_invoke self tr2 p = Inl e
      \<longrightarrow> process_query u self q tr = (Inl e, tr2 @ [LlmInvoke p]))"
proof (intro conjI impI)
  assume "llm_invoke self tr (classify_prompt q) = Inl e"
  then have "should_search_images u self q tr = (Inl e, tr @ [LlmInvoke (classify_prompt q)])"
    by (simp add: should_search_images_def Let_def)
  then show "process_query u self q tr = (Inl e, tr @ [LlmInvoke (classify_prompt q)])"
    by (rule process_query_failed_classification)
next
  assume a: "should_search_images u self q tr = (Inr True, tr1)
        \<and> actor_call self tr1 actor_id (run_input q 10) = Inl e"
  then have "search_images self q 10 tr1 = (Inl e, tr1 @ [ActorCall actor_id (run_input q 10)])"
    by (simp add: search_images_actor_failure)
  with a show "process_query u self q tr = (Inl e, tr1 @ [ActorCall actor_id (run_input q 10)])"
    by (simp add: process_query_with_images)
next
  assume a: "should_search_images u self q tr = (Inr True, tr1)
        \<and> actor_call self tr1 actor_id (run_input q 10) = Inr run
        \<and> py_index run ''defaultDatasetId'' = Inr ds
        \<and> dataset_iterate_items self (tr1 @ [ActorCall actor_id (run_input q 10)]) ds = Inl e"
  then have "search_images self q 10 tr1
      = (Inl e, tr1 @ [ActorCall actor_id (run_input q 10), DatasetIterateItems ds])"
    by (simp add: search_images_dataset_failure)
  with a show "process_query u self q tr
            = (Inl e, tr1 @ [ActorCall actor_id (run_input q 10), DatasetIterateItems ds])"
    by (simp add: process_query_with_images)
next
  assume a: "should_search_images u self q tr = (Inr False, tr1)
        \<and> llm_invoke self tr1 (plain_prompt q) = Inl e"
  then show "process_query u self q tr = (Inl e, tr1 @ [LlmInvoke (plain_prompt q)])"
    by (simp add: process_query_no_images)
next
  assume a: "should_search_images u self q tr = (Inr True, tr1)
        \<and> search_images self q 10 tr1 = (Inr found, tr2)
        \<and> found_report found = Inr ()
        \<and> build_prompt u q found = Inr p
        \<and> llm_invoke self tr2 p = Inl e"
  then have "get_text_response_with_images u self q found tr2 = (Inl e, tr2 @ [LlmInvoke p])"
    by (simp add: get_text_response_plain)
  with a show "process_query u self q tr = (Inl e, tr2 @ [LlmInvoke p])"
    by (simp add: process_query_with_images)
qed


theorem collaborator_errors_propagate_witness:
  "fst (process_query sample_unicode (stub_assistant (Inl (UpstreamError ''model unreachable'')) (Inl KeyError) (Inl KeyError) (Inr ''ok''))
          ''Ada'' []) = Inl (UpstreamError ''model unreachable'')
   \<and> fst (process_query sample_unicode (stub_assistant (Inr ''YES'') (Inl (UpstreamError ''actor failed'')) (Inl KeyError) (Inr ''ok''))
          ''Ada'' []) = Inl (UpstreamError ''actor failed'')
   \<and> fst (process_query sample_unicode (stub_assistant (Inr ''YES'') (Inr (JDict [(''defaultDatasetId'', JStr ''d1'')]))
             (Inl (UpstreamError ''dataset unreadable'')) (Inr ''ok''))
          ''Ada'' []) = Inl (UpstreamError ''dataset unreadable'')
   \<and> fst (process_query sample_unicode (stub_assistant (Inr ''NO'') (Inl KeyError) (Inl KeyError) (Inl (UpstreamError ''quota'')))
          ''Ada'' []) = Inl (UpstreamError ''quota'')
   \<and> fst (process_query sample_unicode (stub_assistant (Inr ''YES'') (Inr (JDict [(''defaultDatasetId'', JStr ''d1'')]))
             (Inr [JDict [(''total_results'', JInt 0)]]) (Inl (UpstreamError ''quota'')))
          ''Ada'' []) = Inl (UpstreamError ''quota'')"
proof -
  let ?run = "JDict [(''defaultDatasetId'', JStr ''d1'')]"
  let ?a1 = "stub_assistant (Inl (UpstreamError ''model unreachable'')) (Inl KeyError) (Inl KeyError) (Inr ''ok'')"
  let ?a2 = "stub_assistant (Inr ''YES'') (Inl (UpstreamError ''actor failed'')) (Inl KeyError) (Inr ''ok'')"
  let ?a3 = "stub_assistant (Inr ''YES'') (Inr ?run) (Inl (UpstreamError ''dataset unreadable'')) (Inr ''ok'')"
  let ?a4 = "stub_assistant (Inr ''NO'') (Inl KeyError) (Inl KeyError) (Inl (UpstreamError ''quota''))"
  let ?a5 = "stub_assistant (Inr ''YES'') (Inr ?run) (Inr [JDict [(''total_results'', JInt 0)]]) (Inl (UpstreamError ''quota''))"
  let ?tr1 = "[LlmInvoke (classify_prompt ''Ada'')]"
  let ?tr2 = "?tr1 @ [ActorCall actor_id (run_input ''Ada'' 10), DatasetIterateItems (JStr ''d1'')]"
  have 1: "llm_invoke ?a1 [] (classify_prompt ''Ada'') = Inl (UpstreamError ''model unreachable'')"
    by (simp add: stub_assistant_def)
  have 2: "should_search_images sample_unicode ?a2 ''Ada'' [] = (Inr True, ?tr1)
           \<and> actor_call ?a2 ?tr1 actor_id (run_input ''Ada'' 10) = Inl (UpstreamError ''actor failed'')"
    by code_simp
  have 3: "should_search_images sample_unicode ?a3 ''Ada'' [] = (Inr True, ?tr1)
        \<and> actor_call ?a3 ?tr1 actor_id (run_input ''Ada'' 10) = Inr ?run
        \<and> py_index ?run ''defaultDatasetId'' = Inr (JStr ''d1'')
        \<and> dataset_iterate_items ?a3 (?tr1 @ [ActorCall actor_id (run_input ''Ada'' 10)]) (JStr ''d1'')
            = Inl (UpstreamError ''dataset unreadable'')"
    by code_simp
  have 4: "should_search_images sample_unicode ?a4 ''Ada'' [] = (Inr False, ?tr1)
        \<and> llm_invoke ?a4 ?tr1 (plain_prompt ''Ada'') = Inl (UpstreamError ''quota'')"
    by code_simp
  have 5: "should_search_images sample_unicode ?a5 ''Ada'' [] = (Inr True, ?tr1)
        \<and> search_images ?a5 ''Ada'' 10 ?tr1 = (Inr (JDict [(''total_results'', JInt 0)]), ?tr2)
        \<and> found_report (JDict [(''total_results'', JInt 0)]) = Inr ()
        \<and> build_prompt sample_unicode ''Ada'' (JDict [(''total_results'', JInt 0)]) = Inr (plain_prompt ''Ada'')
        \<and> llm_invoke ?a5 ?tr2 (plain_prompt ''Ada'') = Inl (UpstreamError ''quota'')"
    by code_simp
  show ?thesis
    using 1 collaborator_errors_propagate [where u = sample_unicode and self = ?a1 and tr = "[]" and q = "''Ada''"
            and e = "UpstreamError ''model unreachable''"]
          2 collaborator_errors_propagate [where u = sample_unicode and self = ?a2 and tr = "[]" and q = "''Ada''"
            and e = "UpstreamError ''actor failed''" and ?tr1.0 = ?tr1]
          3 collaborator_errors_propagate [where u = sample_unicode and self = ?a3 and tr = "[]" and q = "''Ada''"
            and e = "UpstreamError ''dataset unreadable''" and ?tr1.0 = ?tr1 and run = ?run
            and ds = "JStr ''d1''"]
          4 collaborator_errors_propagate [where u = sample_unicode and self = ?a4 and tr = "[]" and q = "''Ada''"
            and e = "UpstreamError ''quota''" and ?tr1.0 = ?tr1]
          5 collaborator_errors_propagate [where u = sample_unicode and self = ?a5 and tr = "[]" and q = "''Ada''"
            and e = "UpstreamError ''quota''" and ?tr1.0 = ?tr1 and ?tr2.0 = ?tr2
            and found = "JDict [(''total_results'', JInt 0)]" and p = "plain_prompt ''Ada''"]
    by simp
qed

lemma process_query_events:
  "\<exists>evs. snd (process_query u self q tr) = tr @ LlmInvoke (classify_prompt q) # evs
     \<and> (case fst (should_search_images u self q tr) of
           Inl e \<Rightarrow> evs = [] \<and> fst (process_query u self q tr) = Inl e
         | Inr needs_images \<Rightarrow>
             if needs_images
             then \<exists>rest. evs = ActorCall actor_id (run_input q 10) # rest
                    \<and> ((rest = [] \<or> (\<exists>ds. rest = [DatasetIterateItems ds]))
                          \<and> (\<exists>e. fst (process_query u self q tr) = Inl e)
                        \<or> (\<exists>ds p. rest = [DatasetIterateItems ds, LlmInvoke p]))
             else evs = [LlmInvoke (plain_prompt q)])"
proof (cases rule: should_search_images_cases [of u self q tr])
  case (failed e)
  then show ?thesis by (simp add: process_query_failed_classification)
next
  case text_only
  then show ?thesis by (simp add: process_query_no_images)
next
  case needs_images
  let ?tr1 = "tr @ [LlmInvoke (classify_prompt q)]"
  obtain evs where evs: "snd (search_images self q 10 ?tr1) = ?tr1 @ ActorCall actor_id (run_input q 10) # evs"
    and shape: "evs = [] \<and> (\<exists>e. fst (search_images self q 10 ?tr1) = Inl e)
              \<or> (\<exists>ds. evs = [DatasetIterateItems ds])"
    using search_images_events [of self q 10 ?tr1] by blast
  obtain res tr2 where search: "search_images self q 10 ?tr1 = (res, tr2)"
    by (cases "search_images self q 10 ?tr1")
  with evs have tr2: "tr2 = ?tr1 @ ActorCall actor_id (run_input q 10) # evs" by simp
  show ?thesis
  proof (cases res)
    case (Inl e)
    then have "process_query u self q tr = (Inl e, tr2)"
      using search by (simp add: process_query_with_images [OF needs_images])
    then show ?thesis using needs_images tr2 shape by auto
  next
    case (Inr found)
    with shape search obtain ds where ds: "evs = [DatasetIterateItems ds]" by auto
    show ?thesis
    proof (cases "found_report found")
      case (Inl e)
      then have "process_query u self q tr = (Inl e, tr2)"
        using search Inr by (simp add: process_query_with_images [OF needs_images])
      then show ?thesis using needs_images tr2 ds by auto
    next
      case report: (Inr ok)
      obtain res3 tr3 where compose: "get_text_response_with_images u self q found tr2 = (res3, tr3)"
        by (cases "get_text_response_with_images u self q found tr2")
      have pq: "process_query u self q tr
                 = (case res3 of Inl e \<Rightarrow> Inl e | Inr answer \<Rightarrow> assemble q answer found, tr3)"
        using search Inr report compose
        by (simp add: process_query_with_images [OF needs_images] split: sum.splits)
      from get_text_response_events [of u self q found tr2] compose
      consider (stopped) e where "tr3 = tr2" "res3 = Inl e" | (sent) p where "tr3 = tr2 @ [LlmInvoke p]"
        by auto
      then show ?thesis
      proof cases
        case stopped
        then show ?thesis using pq needs_images tr2 ds by auto
      next
        case sent
        then show ?thesis using pq needs_images tr2 ds by auto
      qed
    qed
  qed
qed


text \<open>
  C8. The calls \<^verbatim>\<open>process_query\<close> makes are, in this order: the classification call;
  then, only if the classification returned true, the actor call and the dataset read;
  then the call with the composed prompt. An exception cuts the sequence short but
  never reorders it. No search event occurs unless the classification returned true,
  and none occurs before the classification call. A run that returns a result has made
  the whole sequence.
\<close>

theorem classify_then_search_then_compose:
  "\<exists>evs. snd (process_query u self q tr) = tr @ LlmInvoke (classify_prompt q) # evs
     \<and> ((\<exists>e. fst (should_search_images u self q tr) = Inl e) \<longrightarrow> evs = [])
     \<and> (fst (should_search_images u self q tr) = Inr False \<longrightarrow> evs = [LlmInvoke (plain_prompt q)])
     \<and> (fst (should_search_images u self q tr) = Inr True \<longrightarrow>
          (\<exists>rest. evs = ActorCall actor_id (run_input q 10) # rest
             \<and> (rest = [] \<or> (\<exists>ds. rest = [DatasetIterateItems ds])
                  \<or> (\<exists>ds p. rest = [DatasetIterateItems ds, LlmInvoke p]))))
     \<and> (fst (should_search_images u self q tr) \<noteq> Inr True \<longrightarrow>
          (\<forall>name inp. ActorCall name inp \<notin> set evs) \<and> (\<forall>ds. DatasetIterateItems ds \<notin> set evs))
     \<and> (\<forall>r. fst (process_query u self q tr) = Inr r \<longrightarrow>
          evs = [LlmInvoke (plain_prompt q)]
          \<or> (\<exists>ds p. evs = [ActorCall actor_id (run_input q 10), DatasetIterateItems ds, LlmInvoke p]))"
proof -
  obtain evs where tr: "snd (process_query u self q tr) = tr @ LlmInvoke (classify_prompt q) # evs"
    and shape: "case fst (should_search_images u self q tr) of
           Inl e \<Rightarrow> evs = [] \<and> fst (process_query u self q tr) = Inl e
         | Inr needs_images \<Rightarrow>
             if needs_images
             then \<exists>rest. evs = ActorCall actor_id (run_input q 10) # rest
                    \<and> ((rest = [] \<or> (\<exists>ds. rest = [DatasetIterateItems ds]))
                          \<and> (\<exists>e. fst (process_query u self q tr) = Inl e)
                        \<or> (\<exists>ds p. rest = [DatasetIterateItems ds, LlmInvoke p]))
             else evs = [LlmInvoke (plain_prompt q)]"
    using process_query_events [of u self q tr] by blast
  show ?thesis
  proof (cases "fst (should_search_images u self q tr)")
    case (Inl e)
    with tr shape show ?thesis by auto
  next
    case (Inr needs_images)
    show ?thesis
    proof (cases needs_images)
      case True
      with tr shape Inr show ?thesis by auto
    next
      case False
      with tr shape Inr show ?thesis by auto
    qed
  qed
qed

theorem classify_then_search_then_compose_witness:
  "snd (process_query sample_unicode (stub_assistant (Inr ''NO'') (Inl KeyError) (Inl KeyError) (Inr ''A language.''))
          ''What is Python?'' [])
     = [LlmInvoke (classify_prompt ''What is Python?''), LlmInvoke (plain_prompt ''What is Python?'')]
   \<and> (\<exists>ds p. snd (process_query sample_unicode
                  (stub_assistant (Inr ''YES'') (Inr (JDict [(''defaultDatasetId'', JStr ''d1'')]))
                     (Inr [JDict [(''images'', JList [JDict [(''title'', JStr ''Dash'')]])]])
                     (Inr ''See the images.''))
                  ''Tesla dashboard'' [])
         = [LlmInvoke (classify_prompt ''Tesla dashboard''),
            ActorCall actor_id (run_input ''Tesla dashboard'' 10),
            DatasetIterateItems ds, LlmInvoke p])"
proof -
  let ?a = "stub_assistant (Inr ''NO'') (Inl KeyError) (Inl KeyError) (Inr ''A language.'')"
  let ?b = "stub_assistant (Inr ''YES'') (Inr (JDict [(''defaultDatasetId'', JStr ''d1'')]))
                     (Inr [JDict [(''images'', JList [JDict [(''title'', JStr ''Dash'')]])]])
                     (Inr ''See the images.'')"
  have a: "fst (should_search_images sample_unicode ?a ''What is Python?'' []) = Inr False"
    by code_simp
  have b: "fst (should_search_images sample_unicode ?b ''Tesla dashboard'' []) = Inr True"
    by code_simp
  have r: "fst (process_query sample_unicode ?b ''Tesla dashboard'' [])
             = Inr \<lparr> query = ''Tesla dashboard'', text_response = ''See the images.'',
                     images = JList [JDict [(''title'', JStr ''Dash'')]],
                     total_images = JInt 0, perspectives = JList [], image_aware_response = True \<rparr>"
    by code_simp
  have first: "snd (process_query sample_unicode ?a ''What is Python?'' [])
     = [LlmInvoke (classify_prompt ''What is Python?''), LlmInvoke (plain_prompt ''What is Python?'')]"
    using classify_then_search_then_compose [of sample_unicode ?a "''What is Python?''" "[]"] a by auto
  have second: "\<exists>ds p. snd (process_query sample_unicode ?b ''Tesla dashboard'' [])
         = [LlmInvoke (classify_prompt ''Tesla dashboard''),
            ActorCall actor_id (run_input ''Tesla dashboard'' 10),
            DatasetIterateItems ds, LlmInvoke p]"
    using classify_then_search_then_compose [of sample_unicode ?b "''Tesla dashboard''" "[]"] b r by auto
  from first second show ?thesis by blast
qed

section \<open>The composite prompt\<close>

lemma py_str_dict_get: "py_str u (dict_get d k (JStr p)) = field_or u d k p"
  by (simp add: dict_get_def field_or_def py_str_def split: option.splits)

lemma py_str_zero: "py_str u (JInt 0) = ''0''"
  by code_simp

lemma py_str_images_found: "py_str u (dict_get d ''images_found'' (JInt 0)) = field_or u d ''images_found'' ''0''"
  by (simp add: dict_get_def field_or_def py_str_zero split: option.splits)

lemma py_title_unknown: "py_title u ''Unknown'' = ''Unknown''"
  by code_simp

lemma image_details_loop_dict:
  "image_details_loop u i (JDict d # rest) ctx = image_details_loop u (Suc i) rest (ctx @ image_entry u i d)"
  by (simp add: image_entry_def py_str_dict_get)

lemma image_details_loop_other:
  "\<forall>d. x \<noteq> JDict d \<Longrightarrow> image_details_loop u i (x # rest) ctx = Inl AttributeError"
  by (cases x) simp_all

lemma image_details_loop_dicts:
  "image_details_loop u i (map JDict ds) ctx
     = Inr (ctx @ concat (map (case_prod (image_entry u)) (enumerate i ds)))"
proof (induction ds arbitrary: i ctx)
  case Nil
  then show ?case by simp
next
  case (Cons d ds)
  show ?case
    by (simp only: list.map image_details_loop_dict Cons.IH) simp
qed

lemma image_details_loop_Inr:
  "image_details_loop u i items ctx = Inr out \<Longrightarrow>
   \<exists>ds. items = map JDict ds
        \<and> out = ctx @ concat (map (case_prod (image_entry u)) (enumerate i ds))"
proof (induction items arbitrary: i ctx)
  case Nil
  then show ?case by simp
next
  case (Cons x items)
  show ?case
  proof (cases "\<exists>d. x = JDict d")
    case True
    then obtain d where x: "x = JDict d" by blast
    with Cons.prems have "image_details_loop u (Suc i) items (ctx @ image_entry u i d) = Inr out"
      by (simp only: image_details_loop_dict)
    from Cons.IH [OF this] obtain ds where
      "items = map JDict ds"
      "out = (ctx @ image_entry u i d) @ concat (map (case_prod (image_entry u)) (enumerate (Suc i) ds))"
      by blast
    then have "x # items = map JDict (d # ds)"
      and "out = ctx @ concat (map (case_prod (image_entry u)) (enumerate i (d # ds)))"
      using x by simp_all
    then show ?thesis by (intro exI [of _ "d # ds"] conjI)
  next
    case False
    then have "\<forall>d. x \<noteq> JDict d" by blast
    then have "image_details_loop u i (x # items) ctx = Inl AttributeError"
      by (rule image_details_loop_other)
    with Cons.prems show ?thesis by simp
  qed
qed

lemma perspectives_loop_dict:
  assumes "map_of d ''perspective_type'' = map_option JStr ty"
  shows "perspectives_loop u (JDict d # ps) ctx
           = perspectives_loop u ps (ctx @ perspective_line u ty d)"
proof (cases ty)
  case None
  then have "py_title_of u (dict_get d ''perspective_type'' (JStr ''Unknown'')) = Inr ''Unknown''"
    using assms by (simp add: dict_get_def py_title_unknown)
  then show ?thesis
    using None by (simp add: perspective_line_def py_str_dict_get py_str_images_found)
next
  case (Some s)
  then have "py_title_of u (dict_get d ''perspective_type'' (JStr ''Unknown'')) = Inr (py_title u s)"
    using assms by (simp add: dict_get_def)
  then show ?thesis
    using Some by (simp add: perspective_line_def py_str_dict_get py_str_images_found)
qed

lemma perspectives_loop_dicts:
  assumes "map (\<lambda>d. map_of d ''perspective_type'') pds = map (map_option JStr) tys"
  shows "perspectives_loop u (map JDict pds) ctx
           = Inr (ctx @ concat (map (case_prod (perspective_line u)) (zip tys pds)))"
  using assms
proof (induction pds arbitrary: tys ctx)
  case Nil
  then show ?case by simp
next
  case (Cons d pds)
  then obtain ty tys' where tys: "tys = ty # tys'"
    by (cases tys) auto
  with Cons.prems have d: "map_of d ''perspective_type'' = map_option JStr ty"
    and rest: "map (\<lambda>d. map_of d ''perspective_type'') pds = map (map_option JStr) tys'"
    by simp_all
  have "perspectives_loop u (map JDict (d # pds)) ctx
      = perspectives_loop u (map JDict pds) (ctx @ perspective_line u ty d)"
    by (simp only: list.map perspectives_loop_dict [OF d])
  also have "\<dots> = Inr ((ctx @ perspective_line u ty d)
                        @ concat (map (case_prod (perspective_line u)) (zip tys' pds)))"
    by (rule Cons.IH [OF rest])
  finally show ?case using tys by simp
qed

lemma rich_prompt_list:
  "rich_prompt u q (JDict kvs) (JList imgs)
     = (case py_len (dict_get kvs ''search_perspectives'' (JList [])) of
          Inl e \<Rightarrow> Inl e
        | Inr m \<Rightarrow>
       (case py_iter (dict_get kvs ''search_perspectives'' (JList [])) of
          Inl e \<Rightarrow> Inl e
        | Inr ps \<Rightarrow>
       (case perspectives_loop u ps (context_header (length imgs) m) of
          Inl e \<Rightarrow> Inl e
        | Inr ctx \<Rightarrow>
       (case image_details_loop u 0 (take 5 imgs) (ctx @ details_header) of
          Inl e \<Rightarrow> Inl e
        | Inr image_context \<Rightarrow>
            Inr (rich_prompt_head q @ image_context @ rich_prompt_tail)))))"
  by (simp add: rich_prompt_def split: sum.splits)

lemma build_prompt_images_list:
  assumes "map_of kvs ''images'' = Some (JList imgs)" and "imgs \<noteq> []"
  shows "build_prompt u q (JDict kvs) = rich_prompt u q (JDict kvs) (JList imgs)"
proof -
  have "kvs \<noteq> []" using assms(1) by auto
  then show ?thesis using assms by (simp add: build_prompt_dict dict_get_def)
qed

lemma build_prompt_well_formed:
  assumes "map_of kvs ''images'' = Some (JList imgs)"
      and "imgs \<noteq> []"
      and "take 5 imgs = map JDict ims"
      and "dict_get kvs ''search_perspectives'' (JList []) = JList (map JDict pds)"
      and "map (\<lambda>d. map_of d ''perspective_type'') pds = map (map_option JStr) tys"
  shows "build_prompt u q (JDict kvs)
           = Inr (rich_prompt_head q
                  @ context_header (length imgs) (length pds)
                  @ concat (map (case_prod (perspective_line u)) (zip tys pds))
                  @ details_header
                  @ concat (map (case_prod (image_entry u)) (enumerate 0 ims))
                  @ rich_prompt_tail)"
proof -
  have "build_prompt u q (JDict kvs) = rich_prompt u q (JDict kvs) (JList imgs)"
    using assms(1,2) by (rule build_prompt_images_list)
  then show ?thesis
    by (simp add: rich_prompt_list assms(3,4) perspectives_loop_dicts [OF assms(5)]
          image_details_loop_dicts)
qed

text \<open>
  C4. Whenever \<^verbatim>\<open>images\<close> is a non-empty list, of any length, and the composite prompt
  is built, its IMAGE DETAILS section is the entries of the first five images and of no
  other: the number of entries is the smaller of 5 and the number of images, so exactly
  5 from five images on. The 5 is a constant of the function; nothing passed to it changes it.
\<close>

theorem at_most_five_image_entries:
  assumes "map_of kvs ''images'' = Some (JList imgs)"
      and "imgs \<noteq> []"
      and "build_prompt u q (JDict kvs) = Inr prompt"
  shows "\<exists>m ps ctx ds entries.
           py_len (dict_get kvs ''search_perspectives'' (JList [])) = Inr m
           \<and> py_iter (dict_get kvs ''search_perspectives'' (JList [])) = Inr ps
           \<and> perspectives_loop u ps (context_header (length imgs) m) = Inr ctx
           \<and> take 5 imgs = map JDict ds
           \<and> entries = map (case_prod (image_entry u)) (enumerate 0 ds)
           \<and> prompt = rich_prompt_head q @ ctx @ details_header @ concat entries @ rich_prompt_tail
           \<and> length entries = min 5 (length imgs)
           \<and> length entries \<le> 5
           \<and> (5 \<le> length imgs \<longrightarrow> length entries = 5)"
proof -
  have "rich_prompt u q (JDict kvs) (JList imgs) = Inr prompt"
    using build_prompt_images_list [OF assms(1,2)] assms(3) by simp
  then obtain m ps ctx image_context where
    m: "py_len (dict_get kvs ''search_perspectives'' (JList [])) = Inr m"
    and ps: "py_iter (dict_get kvs ''search_perspectives'' (JList [])) = Inr ps"
    and ctx: "perspectives_loop u ps (context_header (length imgs) m) = Inr ctx"
    and loop: "image_details_loop u 0 (take 5 imgs) (ctx @ details_header) = Inr image_context"
    and prompt: "prompt = rich_prompt_head q @ image_context @ rich_prompt_tail"
    by (auto simp: rich_prompt_list split: sum.splits)
  from image_details_loop_Inr [OF loop] obtain ds where
    ds: "take 5 imgs = map JDict ds"
    and out: "image_context = (ctx @ details_header) @ concat (map (case_prod (image_entry u)) (enumerate 0 ds))"
    by blast
  define entries where "entries = map (case_prod (image_entry u)) (enumerate 0 ds)"
  have "length ds = length (take 5 imgs)" using ds by simp
  then have len: "length entries = min 5 (length imgs)"
    by (simp add: entries_def min.commute)
  have "prompt = rich_prompt_head q @ ctx @ details_header @ concat entries @ rich_prompt_tail"
    using prompt out by (simp add: entries_def)
  with m ps ctx ds len entries_def show ?thesis by auto
qed

theorem at_most_five_image_entries_witness:
  "\<exists>prompt ctx entries.
     build_prompt sample_unicode ''Tesla dashboard'' (JDict [(''images'', JList [JDict [(''width'', JInt 1)], JDict [(''width'', JInt 2)], JDict [(''width'', JInt 3)], JDict [(''width'', JInt 4)], JDict [(''width'', JInt 5)], JDict [(''width'', JInt 6)], JDict [(''width'', JInt 7)], JDict [(''width'', JInt 8)], JDict [(''width'', JInt 9)], JDict [(''width'', JInt 10)], JDict [(''width'', JInt 11)], JDict [(''width'', JInt 12)]])]) = Inr prompt
     \<and> prompt = rich_prompt_head ''Tesla dashboard'' @ ctx @ details_header @ concat entries
                @ rich_prompt_tail
     \<and> length entries = 5
     \<and> entries = map (case_prod (image_entry sample_unicode))
                   (enumerate 0 [[(''width'', JInt 1)], [(''width'', JInt 2)], [(''width'', JInt 3)],
                                 [(''width'', JInt 4)], [(''width'', JInt 5)]])"
proof -
  let ?imgs = "[JDict [(''width'', JInt 1)], JDict [(''width'', JInt 2)], JDict [(''width'', JInt 3)], JDict [(''width'', JInt 4)], JDict [(''width'', JInt 5)], JDict [(''width'', JInt 6)], JDict [(''width'', JInt 7)], JDict [(''width'', JInt 8)], JDict [(''width'', JInt 9)], JDict [(''width'', JInt 10)], JDict [(''width'', JInt 11)], JDict [(''width'', JInt 12)]]"
  let ?kvs = "[(''images'', JList ?imgs)]"
  let ?ims = "[[(''width'', JInt 1)], [(''width'', JInt 2)], [(''width'', JInt 3)],
               [(''width'', JInt 4)], [(''width'', JInt 5)]]"
  have 1: "map_of ?kvs ''images'' = Some (JList ?imgs)" by simp
  have 2: "?imgs \<noteq> []" by simp
  have 3: "take 5 ?imgs = map JDict ?ims" by simp
  have 4: "dict_get ?kvs ''search_perspectives'' (JList []) = JList (map JDict [])"
    by (simp add: dict_get_def)
  have 5: "map (\<lambda>d. map_of d ''perspective_type'') ([] :: (string \<times> json) list list)
             = map (map_option JStr) []"
    by simp
  from build_prompt_well_formed [OF 1 2 3 4 5, of sample_unicode "''Tesla dashboard''"]
  obtain prompt where p: "build_prompt sample_unicode ''Tesla dashboard'' (JDict ?kvs) = Inr prompt"
    by blast
  from at_most_five_image_entries [OF 1 2 p]
  obtain ctx ds entries where
    ds: "take 5 ?imgs = map JDict ds"
    and e: "entries = map (case_prod (image_entry sample_unicode)) (enumerate 0 ds)"
    and pr: "prompt = rich_prompt_head ''Tesla dashboard'' @ ctx @ details_header @ concat entries
                @ rich_prompt_tail"
    and len: "5 \<le> length ?imgs \<longrightarrow> length entries = 5"
    by blast
  have inj: "inj JDict" by (simp add: inj_on_def)
  have "map JDict ds = map JDict ?ims" by (rule trans [OF ds [symmetric] 3])
  then have "ds = ?ims" by (rule inj_map_eq_map [OF inj, THEN iffD1])
  with e have e': "entries = map (case_prod (image_entry sample_unicode)) (enumerate 0 ?ims)" by simp
  have "length entries = 5" using len by simp
  with p pr e' show ?thesis by blast
qed





end
